theory Spec2Isabelle
  imports Main "HOL-Library.Word"
begin

section \<open>JavaScript values and thrown values\<close>

text \<open>
  The framework is TypeScript running on Node.js. Values whose runtime shape the code
  inspects (\<^verbatim>\<open>instanceof\<close>, \<^verbatim>\<open>typeof\<close>, \<^verbatim>\<open>== null\<close>) are modelled by a datatype of
  JavaScript values. \<open>JNum\<close> covers the integral numbers only.
\<close>

datatype jsval =
    JUndefined
  | JNull
  | JBool bool
  | JNum int
  | JStr string
  | JArr "jsval list"
  | JObj "(string \<times> jsval) list"

text \<open>
  \<^verbatim>\<open>IImperativeError\<close>: the detail object of an \<^verbatim>\<open>ImperativeError\<close> and the error
  record of a command response. An absent optional field is \<open>JUndefined\<close> (or \<open>None\<close>).
\<close>

record IImperativeError =
  msg :: string
  additionalDetails :: jsval
  causeErrors :: jsval
  stack :: "string option"

text \<open>The object literal \<^verbatim>\<open>{ msg: m }\<close>.\<close>

definition error_msg :: "string \<Rightarrow> IImperativeError" where
  "error_msg m = \<lparr>msg = m, additionalDetails = JUndefined, causeErrors = JUndefined, stack = None\<rparr>"

text \<open>
  What a \<^verbatim>\<open>throw\<close> or a rejected promise carries: an \<^verbatim>\<open>ImperativeError\<close> (with its
  details), any other \<^verbatim>\<open>Error\<close> (message and stack), or a value that is not an error
  object at all.
\<close>

datatype thrown =
    ImperativeError IImperativeError
  | Error string "string option"
  | Thrown jsval

section \<open>Strings and buffers of the credential manager\<close>

text \<open>
  A JavaScript string is a sequence of UTF-16 code units, a \<^verbatim>\<open>Buffer\<close> a sequence of
  bytes. \<^verbatim>\<open>Buffer.from(s)\<close> encodes the string in UTF-8 and \<^verbatim>\<open>buf.toString()\<close>
  decodes UTF-8; both replace what is ill-formed by U+FFFD.
\<close>

type_synonym js_string = "16 word list"
type_synonym buffer = "8 word list"

definition is_high_surrogate :: "16 word \<Rightarrow> bool" where
  "is_high_surrogate u = (0xD800 \<le> unat u \<and> unat u \<le> 0xDBFF)"

definition is_low_surrogate :: "16 word \<Rightarrow> bool" where
  "is_low_surrogate u = (0xDC00 \<le> unat u \<and> unat u \<le> 0xDFFF)"

definition lone_unit :: "16 word \<Rightarrow> nat" where
  "lone_unit u = (if is_high_surrogate u \<or> is_low_surrogate u then 0xFFFD else unat u)"

text \<open>The code points of a string; a surrogate that is not part of a pair reads as U+FFFD.\<close>

fun code_points :: "js_string \<Rightarrow> nat list" where
  "code_points [] = []"
| "code_points [u] = [lone_unit u]"
| "code_points (u # v # r) =
     (if is_high_surrogate u \<and> is_low_surrogate v
      then (0x10000 + (unat u - 0xD800) * 0x400 + (unat v - 0xDC00)) # code_points r
      else lone_unit u # code_points (v # r))"

definition utf8_bytes :: "nat \<Rightarrow> buffer" where
  "utf8_bytes cp =
     (if cp < 0x80 then [of_nat cp]
      else if cp < 0x800 then [of_nat (0xC0 + cp div 64), of_nat (0x80 + cp mod 64)]
      else if cp < 0x10000 then
        [of_nat (0xE0 + cp div 4096), of_nat (0x80 + cp div 64 mod 64), of_nat (0x80 + cp mod 64)]
      else
        [of_nat (0xF0 + cp div 262144), of_nat (0x80 + cp div 4096 mod 64),
         of_nat (0x80 + cp div 64 mod 64), of_nat (0x80 + cp mod 64)])"

text \<open>\<^verbatim>\<open>Buffer.from(s)\<close>\<close>

definition Buffer_from :: "js_string \<Rightarrow> buffer" where
  "Buffer_from s = concat (map utf8_bytes (code_points s))"

text \<open>
  The UTF-8 decoder: \<open>need\<close> continuation bytes are still expected for the code point
  \<open>cp\<close>, the next one within \<open>lo..hi\<close>. A byte that cannot continue the sequence ends
  it with U+FFFD and is read again as the start of a new sequence.
\<close>

function utf8_decode :: "nat \<Rightarrow> nat \<Rightarrow> nat \<Rightarrow> nat \<Rightarrow> nat list \<Rightarrow> nat list" where
  "utf8_decode cp need lo hi [] = (if need = 0 then [] else [0xFFFD])"
| "utf8_decode cp need lo hi (b # bs) =
     (if need = 0 then
        (if b < 0x80 then b # utf8_decode 0 0 0x80 0xBF bs
         else if 0xC2 \<le> b \<and> b \<le> 0xDF then utf8_decode (b mod 32) 1 0x80 0xBF bs
         else if 0xE0 \<le> b \<and> b \<le> 0xEF then
           utf8_decode (b mod 16) 2 (if b = 0xE0 then 0xA0 else 0x80) (if b = 0xED then 0x9F else 0xBF) bs
         else if 0xF0 \<le> b \<and> b \<le> 0xF4 then
           utf8_decode (b mod 8) 3 (if b = 0xF0 then 0x90 else 0x80) (if b = 0xF4 then 0x8F else 0xBF) bs
         else 0xFFFD # utf8_decode 0 0 0x80 0xBF bs)
      else if b < lo \<or> hi < b then 0xFFFD # utf8_decode 0 0 0x80 0xBF (b # bs)
      else if need = 1 then (cp * 64 + b mod 64) # utf8_decode 0 0 0x80 0xBF bs
      else utf8_decode (cp * 64 + b mod 64) (need - 1) 0x80 0xBF bs)"
  by pat_completeness auto
termination
  by (relation "measure (\<lambda>(cp, need, lo, hi, bs). 2 * length bs + (if need = 0 then 0 else 1))") auto

definition utf16_units :: "nat \<Rightarrow> js_string" where
  "utf16_units cp =
     (if cp < 0x10000 then [of_nat cp]
      else [of_nat (0xD800 + (cp - 0x10000) div 0x400), of_nat (0xDC00 + (cp - 0x10000) mod 0x400)])"

text \<open>\<^verbatim>\<open>buf.toString()\<close>\<close>

definition Buffer_toString :: "buffer \<Rightarrow> js_string" where
  "Buffer_toString buf = concat (map utf16_units (utf8_decode 0 0 0x80 0xBF (map unat buf)))"

subsection \<open>Base64\<close>

text \<open>The bytes of a buffer as 6-bit groups; the last group is filled with zero bits.\<close>

fun sextets :: "buffer \<Rightarrow> nat list" where
  "sextets [] = []"
| "sextets [a] = [unat a div 4, unat a mod 4 * 16]"
| "sextets [a, b] = [unat a div 4, unat a mod 4 * 16 + unat b div 16, unat b mod 16 * 4]"
| "sextets (a # b # c # r) =
     [unat a div 4, unat a mod 4 * 16 + unat b div 16, unat b mod 16 * 4 + unat c div 64, unat c mod 64]
     @ sextets r"

text \<open>The alphabet \<^verbatim>\<open>A-Z a-z 0-9 + /\<close>, as code units.\<close>

definition base64_char :: "nat \<Rightarrow> 16 word" where
  "base64_char i =
     (if i < 26 then of_nat (65 + i)
      else if i < 52 then of_nat (71 + i)
      else if i < 62 then of_nat (i - 4)
      else if i = 62 then 43 else 47)"

definition base64_padding :: "nat \<Rightarrow> js_string" where
  "base64_padding n = replicate ((3 - n mod 3) mod 3) 61"

text \<open>\<^verbatim>\<open>buf.toString("base64")\<close>\<close>

definition Buffer_toString_base64 :: "buffer \<Rightarrow> js_string" where
  "Buffer_toString_base64 buf = map base64_char (sextets buf) @ base64_padding (length buf)"

text \<open>
  The value of a character when decoding; the decoder also takes the URL-safe
  \<^verbatim>\<open>-\<close> and \<^verbatim>\<open>_\<close>, and skips every other character.
\<close>

definition unbase64 :: "16 word \<Rightarrow> nat option" where
  "unbase64 c =
     (let n = unat c in
      if 65 \<le> n \<and> n \<le> 90 then Some (n - 65)
      else if 97 \<le> n \<and> n \<le> 122 then Some (n - 71)
      else if 48 \<le> n \<and> n \<le> 57 then Some (n + 4)
      else if n = 43 \<or> n = 45 then Some 62
      else if n = 47 \<or> n = 95 then Some 63
      else None)"

fun unsextets :: "nat list \<Rightarrow> buffer" where
  "unsextets (p # q # r # s # rest) =
     [of_nat (p * 4 + q div 16), of_nat (q mod 16 * 16 + r div 4), of_nat (r mod 4 * 64 + s)]
     @ unsextets rest"
| "unsextets [p, q, r] = [of_nat (p * 4 + q div 16), of_nat (q mod 16 * 16 + r div 4)]"
| "unsextets [p, q] = [of_nat (p * 4 + q div 16)]"
| "unsextets _ = []"

text \<open>\<^verbatim>\<open>Buffer.from(s, "base64")\<close>: decoding stops at the padding.\<close>

definition Buffer_from_base64 :: "js_string \<Rightarrow> buffer" where
  "Buffer_from_base64 s = unsextets (List.map_filter unbase64 (takeWhile (\<lambda>c. c \<noteq> 61) s))"

section \<open>AbstractCredentialManager\<close>

text \<open>
  The three abstract methods, as a subclass implements them over its own state \<open>'s\<close>.
  Each returns normally or throws, and may change the state.
\<close>

record 's credential_store =
  deleteCredentials :: "js_string \<Rightarrow> 's \<Rightarrow> (thrown + unit) \<times> 's"
  loadCredentials :: "js_string \<Rightarrow> 's \<Rightarrow> (thrown + js_string) \<times> 's"
  saveCredentials :: "js_string \<Rightarrow> js_string \<Rightarrow> 's \<Rightarrow> (thrown + unit) \<times> 's"

text \<open>
  The argument \<^verbatim>\<open>secureValue: string\<close> as it arrives at run time: the method itself
  tests it for \<^verbatim>\<open>null\<close> and \<^verbatim>\<open>undefined\<close>.
\<close>

datatype secure_value = SecureNull | SecureUndefined | SecureString js_string

fun isNullOrUndefined :: "secure_value \<Rightarrow> bool" where
  "isNullOrUndefined SecureNull = True"
| "isNullOrUndefined SecureUndefined = True"
| "isNullOrUndefined (SecureString _) = False"

text \<open>The template literal \<^verbatim>\<open>`${secureValue}`\<close>, on the only values that reach it.\<close>

fun template_of :: "secure_value \<Rightarrow> js_string" where
  "template_of (SecureString s) = s"
| "template_of SecureNull = map of_char ''null''"
| "template_of SecureUndefined = map of_char ''undefined''"

definition delete_cred :: "'s credential_store \<Rightarrow> js_string \<Rightarrow> 's \<Rightarrow> (thrown + unit) \<times> 's" where
  "delete_cred m account s = deleteCredentials m account s"

definition load :: "'s credential_store \<Rightarrow> js_string \<Rightarrow> 's \<Rightarrow> (thrown + js_string) \<times> 's" where
  "load m account s =
     (case loadCredentials m account s of
        (Inl e, s') \<Rightarrow> (Inl e, s')
      | (Inr encodedString, s') \<Rightarrow> (Inr (Buffer_toString (Buffer_from_base64 encodedString)), s'))"

definition save :: "'s credential_store \<Rightarrow> js_string \<Rightarrow> secure_value \<Rightarrow> 's \<Rightarrow> (thrown + unit) \<times> 's" where
  "save m account secureValue s =
     (if \<not> isNullOrUndefined secureValue \<and> secureValue \<noteq> SecureString [] then
        (let encodedString = Buffer_toString_base64 (Buffer_from (template_of secureValue))
         in saveCredentials m account encodedString s)
      else (Inl (ImperativeError (error_msg ''Missing Secure Field'')), s))"

text \<open>A store that keeps the credentials in a map from account to credential.\<close>

definition map_store :: "(js_string \<rightharpoonup> js_string) credential_store" where
  "map_store =
     \<lparr>deleteCredentials = (\<lambda>account s. (Inr (), s(account := None))),
      loadCredentials = (\<lambda>account s.
         (case s account of
            None \<Rightarrow> (Inl (ImperativeError (error_msg ''Unable to load credentials'')), s)
          | Some c \<Rightarrow> (Inr c, s))),
      saveCredentials = (\<lambda>account c s. (Inr (), s(account \<mapsto> c)))\<rparr>"

subsection \<open>Well-formed strings\<close>

text \<open>
  The Unicode scalar values, and the strings in which every surrogate code unit is part
  of a pair of a high and a low surrogate.
\<close>

definition scalar :: "nat \<Rightarrow> bool" where
  "scalar cp = (cp < 0x110000 \<and> \<not> (0xD800 \<le> cp \<and> cp \<le> 0xDFFF))"

fun well_formed :: "js_string \<Rightarrow> bool" where
  "well_formed [] = True"
| "well_formed [u] = (\<not> is_high_surrogate u \<and> \<not> is_low_surrogate u)"
| "well_formed (u # v # r) =
     (if is_high_surrogate u then is_low_surrogate v \<and> well_formed r
      else \<not> is_low_surrogate u \<and> well_formed (v # r))"

section \<open>Text helpers\<close>

definition quoted :: "string \<Rightarrow> string" where
  "quoted s = CHR 0x22 # s @ [CHR 0x22]"

text \<open>\<^verbatim>\<open>xs.join(sep)\<close> on an array of strings.\<close>

fun join :: "string \<Rightarrow> string list \<Rightarrow> string" where
  "join sep [] = []"
| "join sep [x] = x"
| "join sep (x # y # r) = x @ sep @ join sep (y # r)"

definition is_space :: "char \<Rightarrow> bool" where
  "is_space c = (c \<in> {CHR '' '', CHR 0x09, CHR 0x0A, CHR 0x0B, CHR 0x0C, CHR 0x0D})"

text \<open>\<^verbatim>\<open>s.trim()\<close>, on the white space a byte string can hold.\<close>

definition trim :: "string \<Rightarrow> string" where
  "trim s = rev (dropWhile is_space (rev (dropWhile is_space s)))"

fun digits :: "nat \<Rightarrow> string" where
  "digits n = (if n < 10 then [char_of (48 + n)] else digits (n div 10) @ [char_of (48 + n mod 10)])"

text \<open>The string a value becomes in a concatenation or a template literal.\<close>

fun js_to_string :: "jsval \<Rightarrow> string" where
  "js_to_string JUndefined = ''undefined''"
| "js_to_string JNull = ''null''"
| "js_to_string (JBool b) = (if b then ''true'' else ''false'')"
| "js_to_string (JNum n) = (if n < 0 then CHR ''-'' # digits (nat (- n)) else digits (nat n))"
| "js_to_string (JStr s) = s"
| "js_to_string (JArr xs) =
     join '','' (map (\<lambda>x. if x = JUndefined \<or> x = JNull then [] else js_to_string x) xs)"
| "js_to_string (JObj kvs) = ''[object Object]''"

fun truthy :: "jsval \<Rightarrow> bool" where
  "truthy JUndefined = False"
| "truthy JNull = False"
| "truthy (JBool b) = b"
| "truthy (JNum n) = (n \<noteq> 0)"
| "truthy (JStr s) = (s \<noteq> [])"
| "truthy (JArr xs) = True"
| "truthy (JObj kvs) = True"

definition property :: "(string \<times> jsval) list \<Rightarrow> string \<Rightarrow> jsval" where
  "property kvs k = (case map_of kvs k of None \<Rightarrow> JUndefined | Some v \<Rightarrow> v)"

text \<open>
  Reading a property of \<^verbatim>\<open>undefined\<close> or \<^verbatim>\<open>null\<close> throws a TypeError. The text
  stands for the message of the runtime, which names the property; the stack trace is
  not modelled.
\<close>

definition TypeError :: "string \<Rightarrow> thrown" where
  "TypeError what = Error (''TypeError: Cannot read property '' @ what @ '' of undefined'') None"

text \<open>
  \<^verbatim>\<open>e.message\<close> on a caught value. The message of an ImperativeError is the \<open>msg\<close> of
  its details.
\<close>

fun get_message :: "thrown \<Rightarrow> thrown + jsval" where
  "get_message (ImperativeError d) = Inr (JStr (msg d))"
| "get_message (Error m st) = Inr (JStr m)"
| "get_message (Thrown JUndefined) = Inl (TypeError ''message'')"
| "get_message (Thrown JNull) = Inl (TypeError ''message'')"
| "get_message (Thrown (JObj kvs)) = Inr (property kvs ''message'')"
| "get_message (Thrown v) = Inr JUndefined"

text \<open>\<^verbatim>\<open>(e as ImperativeError).details.additionalDetails\<close> on a caught value.\<close>

fun get_details_additionalDetails :: "thrown \<Rightarrow> thrown + jsval" where
  "get_details_additionalDetails (ImperativeError d) = Inr (additionalDetails d)"
| "get_details_additionalDetails (Error m st) = Inl (TypeError ''additionalDetails'')"
| "get_details_additionalDetails (Thrown JUndefined) = Inl (TypeError ''details'')"
| "get_details_additionalDetails (Thrown JNull) = Inl (TypeError ''details'')"
| "get_details_additionalDetails (Thrown (JObj kvs)) =
     (case property kvs ''details'' of
        JUndefined \<Rightarrow> Inl (TypeError ''additionalDetails'')
      | JNull \<Rightarrow> Inl (TypeError ''additionalDetails'')
      | JObj kvs' \<Rightarrow> Inr (property kvs' ''additionalDetails'')
      | _ \<Rightarrow> Inr JUndefined)"
| "get_details_additionalDetails (Thrown v) = Inl (TypeError ''additionalDetails'')"

text \<open>\<^verbatim>\<open>v != null && typeof v === "string"\<close>\<close>

fun is_string :: "jsval \<Rightarrow> bool" where
  "is_string (JStr s) = True"
| "is_string _ = False"

section \<open>The command response\<close>

text \<open>What was written to a console stream: a header line or a message.\<close>

datatype console_item = ErrorHeader string | Text jsval

text \<open>\<^verbatim>\<open>ICommandResponse\<close>: the JSON-serializable snapshot that \<^verbatim>\<open>invoke\<close> returns.\<close>

record ICommandResponse =
  success :: bool
  exitCode :: int
  message :: string
  data :: jsval
  stdout :: "console_item list"
  stderr :: "console_item list"
  error :: "IImperativeError option"

text \<open>
  Modelled from the spec: the class \<^verbatim>\<open>CommandResponse\<close> (response/CommandResponse.ts) is
  not among the sources; the processor only calls its methods. Sections 3 and 4.B of the
  specification give its state (structured data and message, buffered stdout and stderr,
  a progress indicator, the success flag, the error record, format and silent) and its
  operations: the console operations append to a buffer, \<open>setError\<close> implies
  \<open>failed\<close>, and the snapshot has exit code 0 on success and 1 on failure. The colour
  and layout of a header are left to the item \<open>ErrorHeader\<close>.
\<close>

record CommandResponse =
  mSucceeded :: bool
  mMessage :: string
  mData :: jsval
  mStdout :: "console_item list"
  mStderr :: "console_item list"
  mError :: "IImperativeError option"
  mSilent :: bool
  mResponseFormat :: string
  mProgressBar :: bool

definition new_CommandResponse :: "bool \<Rightarrow> string \<Rightarrow> CommandResponse" where
  "new_CommandResponse sil fmt =
     \<lparr>mSucceeded = True, mMessage = [], mData = JUndefined, mStdout = [], mStderr = [],
      mError = None, mSilent = sil, mResponseFormat = fmt, mProgressBar = False\<rparr>"

definition succeeded :: "CommandResponse \<Rightarrow> CommandResponse" where
  "succeeded r = r\<lparr>mSucceeded := True\<rparr>"

definition failed :: "CommandResponse \<Rightarrow> CommandResponse" where
  "failed r = r\<lparr>mSucceeded := False\<rparr>"

definition setError :: "IImperativeError \<Rightarrow> CommandResponse \<Rightarrow> CommandResponse" where
  "setError e r = r\<lparr>mError := Some e, mSucceeded := False\<rparr>"

definition setMessage :: "string \<Rightarrow> CommandResponse \<Rightarrow> CommandResponse" where
  "setMessage m r = r\<lparr>mMessage := m\<rparr>"

definition setObj :: "jsval \<Rightarrow> CommandResponse \<Rightarrow> CommandResponse" where
  "setObj v r = r\<lparr>mData := v\<rparr>"

definition console_log :: "jsval \<Rightarrow> CommandResponse \<Rightarrow> CommandResponse" where
  "console_log v r = r\<lparr>mStdout := mStdout r @ [Text v]\<rparr>"

definition console_error :: "jsval \<Rightarrow> CommandResponse \<Rightarrow> CommandResponse" where
  "console_error v r = r\<lparr>mStderr := mStderr r @ [Text v]\<rparr>"

definition console_errorHeader :: "string \<Rightarrow> CommandResponse \<Rightarrow> CommandResponse" where
  "console_errorHeader h r = r\<lparr>mStderr := mStderr r @ [ErrorHeader h]\<rparr>"

definition endProgressBar :: "CommandResponse \<Rightarrow> CommandResponse" where
  "endProgressBar r = r\<lparr>mProgressBar := False\<rparr>"

definition bufferStdout :: "console_item list \<Rightarrow> CommandResponse \<Rightarrow> CommandResponse" where
  "bufferStdout b r = r\<lparr>mStdout := mStdout r @ b\<rparr>"

definition bufferStderr :: "console_item list \<Rightarrow> CommandResponse \<Rightarrow> CommandResponse" where
  "bufferStderr b r = r\<lparr>mStderr := mStderr r @ b\<rparr>"

text \<open>
  The format and the silent flag are fixed when the response is constructed; no operation
  of the response changes them. Whatever a collaborator that was handed the response
  \<open>r\<close> did to it, leaving \<open>r'\<close>, these two are as they were.
\<close>

definition read_only :: "CommandResponse \<Rightarrow> CommandResponse \<Rightarrow> CommandResponse" where
  "read_only r r' = r'\<lparr>mSilent := mSilent r, mResponseFormat := mResponseFormat r\<rparr>"

definition buildJsonResponse :: "CommandResponse \<Rightarrow> ICommandResponse" where
  "buildJsonResponse r =
     \<lparr>success = mSucceeded r, exitCode = (if mSucceeded r then 0 else 1), message = mMessage r,
      data = mData r, stdout = mStdout r, stderr = mStderr r, error = mError r\<rparr>"

section \<open>Command definitions, arguments and collaborators\<close>

record IChainedHandlerEntry =
  ch_handler :: string
  ch_silent :: "bool option"
  ch_mapping :: jsval

record ICommandDefinition =
  def_name :: string
  def_type :: string
  def_handler :: "string option"
  def_chainedHandlers :: "IChainedHandlerEntry list option"

text \<open>
  The yargs arguments: the positional words under \<^verbatim>\<open>_\<close> (\<open>None\<close> when that property
  is not an array) and the named options.
\<close>

record Arguments =
  positionals :: "string list option"
  named :: "(string \<times> jsval) list"

record IInvokeCommandParms =
  arguments :: "Arguments option"
  silent :: "bool option"
  responseFormat :: "string option"

record ICommandValidatorResponse =
  valid :: bool

text \<open>
  What a handler's \<^verbatim>\<open>process\<close> receives next to the response. The response itself is
  passed as the state the handler works on: the handler returns it as it left it,
  with the value it threw or rejected with, if any.
\<close>

record 'p IHandlerParameters =
  profiles :: 'p
  hp_arguments :: Arguments
  definition_of :: ICommandDefinition
  fullDefinition_of :: ICommandDefinition
  isChained :: bool

type_synonym 'p ICommandHandler =
  "'p IHandlerParameters \<Rightarrow> CommandResponse \<Rightarrow> thrown option \<times> CommandResponse"

text \<open>
  The collaborators of the processor that are not part of it: the syntax validator, the
  reading of stdin, the profile loader, the module loader with the handler's
  constructor (\<^verbatim>\<open>require(path)\<close> and \<^verbatim>\<open>new commandHandler.default()\<close>), the chained
  argument linker, \<^verbatim>\<open>path.normalize\<close>, the text of the message
  \<^verbatim>\<open>couldNotInstatiateCommandHandler\<close> filled with the handler and the definition
  name, and the constant \<^verbatim>\<open>Constants.JSON_OPTION\<close>. Each one that receives the response
  may have written to it before it throws.
\<close>

record 'p environment =
  syntaxValidator :: "ICommandDefinition \<Rightarrow> ICommandDefinition \<Rightarrow> CommandResponse \<Rightarrow> Arguments
     \<Rightarrow> (thrown + ICommandValidatorResponse) \<times> CommandResponse"
  readStdinIfRequested :: "Arguments \<Rightarrow> CommandResponse \<Rightarrow> string
     \<Rightarrow> thrown option \<times> Arguments \<times> CommandResponse"
  loadProfiles :: "ICommandDefinition \<Rightarrow> Arguments \<Rightarrow> thrown + 'p"
  require :: "string \<Rightarrow> thrown + 'p ICommandHandler"
  getArguments :: "string \<Rightarrow> IChainedHandlerEntry list \<Rightarrow> nat \<Rightarrow> jsval list \<Rightarrow> Arguments
     \<Rightarrow> thrown + Arguments"
  normalize :: "string \<Rightarrow> string"
  couldNotInstatiateCommandHandler :: "string \<Rightarrow> string \<Rightarrow> string"
  JSON_OPTION :: string

text \<open>
  Modelled from the spec: the message constant \<^verbatim>\<open>unexpectedCommandError\<close> of the
  messages module is not among the sources; the handler-error table of section 4.G
  gives its text.
\<close>

definition unexpectedCommandError :: string where
  "unexpectedCommandError = ''Unexpected Command Error''"

text \<open>
  Modelled from the spec: the class \<^verbatim>\<open>ImperativeExpect\<close> is not among the sources.
  Section 7 of the specification says that null Processor parameters propagate as a
  thrown value, and the constructor checks them with the same calls as
  \<^verbatim>\<open>invoke\<close>: a check that fails throws an ImperativeError with the message the caller
  supplied; a check that holds returns.
\<close>

definition toNotBeNullOrUndefined :: "'a option \<Rightarrow> string \<Rightarrow> thrown option" where
  "toNotBeNullOrUndefined obj m = (case obj of None \<Rightarrow> Some (ImperativeError (error_msg m)) | Some _ \<Rightarrow> None)"

definition toBeOneOf :: "string \<Rightarrow> string list \<Rightarrow> string \<Rightarrow> thrown option" where
  "toBeOneOf actual ls m = (if actual \<in> set ls then None else Some (ImperativeError (error_msg m)))"

definition toBeAnArray :: "string list option \<Rightarrow> string \<Rightarrow> thrown option" where
  "toBeAnArray maybeArray m =
     (case maybeArray of None \<Rightarrow> Some (ImperativeError (error_msg m)) | Some _ \<Rightarrow> None)"

definition toNotBeEqual :: "string \<Rightarrow> string \<Rightarrow> string \<Rightarrow> thrown option" where
  "toNotBeEqual actual expected m =
     (if actual = expected then Some (ImperativeError (error_msg m)) else None)"

section \<open>CommandProcessor\<close>

record CommandProcessor =
  mCommandRootName :: string
  mDefinition :: ICommandDefinition
  mFullDefinition :: ICommandDefinition

definition ERROR_TAG :: string where
  "ERROR_TAG = ''Command Processor Error:''"

text \<open>
  What the pipeline does to its collaborators, in order: the validator ran, the
  preparation ran, a handler module was loaded, the \<^verbatim>\<open>process\<close> method of the handler
  of that path was called, the JSON document was written.
\<close>

datatype event = Validate | Prepare | Require string | Process string | WriteJson ICommandResponse

type_synonym 'a traced = "'a \<times> event list"

text \<open>
  The getters \<^verbatim>\<open>definition\<close> and \<^verbatim>\<open>fullDefinition\<close> return a copy made through JSON;
  a record value is its own copy.
\<close>

definition definition_copy :: "CommandProcessor \<Rightarrow> ICommandDefinition" where
  "definition_copy p = mDefinition p"

definition fullDefinition_copy :: "CommandProcessor \<Rightarrow> ICommandDefinition" where
  "fullDefinition_copy p = mFullDefinition p"

text \<open>
  \<^verbatim>\<open>validate\<close> first expects its two arguments not to be null; here both are values,
  never null. It then answers with what the syntax validator answers.
\<close>

definition validate :: "'p environment \<Rightarrow> CommandProcessor \<Rightarrow> Arguments \<Rightarrow> CommandResponse
    \<Rightarrow> (thrown + ICommandValidatorResponse) \<times> CommandResponse" where
  "validate env p commandArguments responseObject =
     (case syntaxValidator env (mDefinition p) (mFullDefinition p) responseObject commandArguments of
        (res, r') \<Rightarrow> (res, read_only responseObject r'))"

definition constructResponseObject :: "IInvokeCommandParms \<Rightarrow> CommandResponse" where
  "constructResponseObject params =
     new_CommandResponse (case silent params of None \<Rightarrow> False | Some b \<Rightarrow> b)
       (case responseFormat params of None \<Rightarrow> [] | Some f \<Rightarrow> f)"

definition finishResponse :: "CommandResponse \<Rightarrow> event list \<Rightarrow> (thrown + ICommandResponse) traced" where
  "finishResponse response tr =
     (let json = buildJsonResponse response in
      if \<not> mSilent response then
        (if mResponseFormat response = ''json'' then (Inr json, tr @ [WriteJson json])
         else if mResponseFormat response = ''default'' then (Inr json, tr)
         else (Inl (ImperativeError (error_msg (ERROR_TAG @ '' The response format specified (''
                 @ quoted (mResponseFormat response) @ '') is not valid.''))), tr))
      else (Inr json, tr))"

definition prepare :: "'p environment \<Rightarrow> CommandProcessor \<Rightarrow> CommandResponse \<Rightarrow> Arguments
    \<Rightarrow> (thrown + 'p) \<times> Arguments \<times> CommandResponse" where
  "prepare env p response commandArguments =
     (case readStdinIfRequested env commandArguments response (def_type (definition_copy p)) of
        (Some e, args', response') \<Rightarrow> (Inl e, args', read_only response response')
      | (None, args', response') \<Rightarrow>
          (loadProfiles env (definition_copy p) args', args', read_only response response'))"

text \<open>\<^verbatim>\<open>await handler.process(params)\<close>, the response being \<^verbatim>\<open>params.response\<close>.\<close>

definition process :: "'p ICommandHandler \<Rightarrow> 'p IHandlerParameters \<Rightarrow> CommandResponse
    \<Rightarrow> thrown option \<times> CommandResponse" where
  "process h params response = (case h params response of (res, r') \<Rightarrow> (res, read_only response r'))"

definition attemptHandlerLoad :: "'p environment \<Rightarrow> CommandProcessor \<Rightarrow> CommandResponse \<Rightarrow> string
    \<Rightarrow> event list \<Rightarrow> (thrown + 'p ICommandHandler option \<times> CommandResponse) traced" where
  "attemptHandlerLoad env p response handlerPath tr =
     (case require env handlerPath of
        Inr h \<Rightarrow> (Inr (Some h, response), tr @ [Require handlerPath])
      | Inl handlerErr \<Rightarrow>
          (case get_message handlerErr of
             Inl typeError \<Rightarrow> (Inl typeError, tr @ [Require handlerPath])
           | Inr m \<Rightarrow>
               (let errorMessage = couldNotInstatiateCommandHandler env
                      (if normalize env handlerPath = [] then quoted ''undefined or not specified''
                       else normalize env handlerPath)
                      (def_name (definition_copy p));
                    r1 = failed response;
                    r2 = console_errorHeader ''Handler Instantiation Failed'' r1;
                    r3 = console_error (JStr errorMessage) r2;
                    r4 = setMessage errorMessage r3;
                    r5 = console_errorHeader ''Error Details'' r4;
                    r6 = console_error m r5;
                    r7 = setError ((error_msg errorMessage)\<lparr>additionalDetails := m\<rparr>) r6
                in (Inr (None, r7), tr @ [Require handlerPath]))))"

definition handleHandlerError :: "thrown \<Rightarrow> CommandResponse \<Rightarrow> string \<Rightarrow> CommandResponse" where
  "handleHandlerError handlerErr response handlerPath =
     (let r0 = endProgressBar (failed response) in
      case handlerErr of
        ImperativeError details \<Rightarrow>
          (let r1 = setError details r0;
               r2 = console_errorHeader ''Command Error'' r1;
               r3 = console_error (JStr (msg details @ [CHR 0x0A])) r2;
               r4 = (if additionalDetails details \<noteq> JUndefined \<and> additionalDetails details \<noteq> JNull
                        \<and> is_string (additionalDetails details)
                     then console_error (additionalDetails details) (console_errorHeader ''Error Details'' r3)
                     else r3)
           in setMessage (msg details) r4)
      | Error m st \<Rightarrow>
          (let r1 = setError ((error_msg m)\<lparr>stack := st\<rparr>) r0;
               r2 = setMessage (unexpectedCommandError @ '': '' @ m) r1;
               r3 = console_errorHeader unexpectedCommandError r2;
               r4 = console_error (JStr (''Please review the message and stack below.'' @ [CHR 0x0A]
                      @ ''Contact the creator of handler:'' @ [CHR 0x0A] @ quoted handlerPath)) r3;
               r5 = console_errorHeader ''Message'' r4;
               r6 = (if m \<noteq> [] then console_error (JStr m) r5
                     else console_error (JStr ''No message present in the error.'') r5);
               r7 = console_errorHeader ''Stack'' r6
           in (case st of
                 Some s \<Rightarrow> (if s \<noteq> [] then console_error (JStr s) r7
                            else console_error (JStr ''No error stack present in the error.'') r7)
               | None \<Rightarrow> console_error (JStr ''No error stack present in the error.'') r7))
      | Thrown (JStr s) \<Rightarrow>
          (let r1 = console_errorHeader ''Command Error'' r0;
               r2 = console_error (JStr s) r1;
               r3 = setMessage s r2
           in setError (error_msg s) r3)
      | Thrown JUndefined \<Rightarrow> setError (error_msg ''Command Failed'') (setMessage ''Command failed'' r0)
      | Thrown JNull \<Rightarrow> setError (error_msg ''Command Failed'') (setMessage ''Command failed'' r0)
      | Thrown v \<Rightarrow>
          (let r1 = console_errorHeader unexpectedCommandError r0;
               r2 = console_error (JStr ''The command indicated failure through an unexpected means.'') r1;
               r3 = console_error (JStr ''Contact the creator of handler:'') r2;
               r4 = console_error (JStr (quoted handlerPath)) r3
           in setObj v r4))"

subsection \<open>invoke\<close>

text \<open>
  The checks at the head of \<^verbatim>\<open>invoke\<close>, before any response object exists. They
  return the parameters with the response format filled in, and the arguments.
\<close>

definition precheck :: "CommandProcessor \<Rightarrow> IInvokeCommandParms option
    \<Rightarrow> thrown + IInvokeCommandParms \<times> Arguments" where
  "precheck p params_opt =
     (case toNotBeNullOrUndefined params_opt (ERROR_TAG @ '' invoke(): No parameters supplied.'') of
        Some e \<Rightarrow> Inl e
      | None \<Rightarrow>
     (case params_opt of
        None \<Rightarrow> Inl (TypeError ''arguments'')
      | Some params0 \<Rightarrow>
     (case toNotBeNullOrUndefined (arguments params0)
             (ERROR_TAG @ '' invoke(): No command arguments supplied.'') of
        Some e \<Rightarrow> Inl e
      | None \<Rightarrow>
     (let fmt = (case responseFormat params0 of None \<Rightarrow> ''default'' | Some f \<Rightarrow> f);
          params = params0\<lparr>responseFormat := Some fmt\<rparr>;
          responseOptions = [''default'', ''json'']
      in
     (case toBeOneOf fmt responseOptions
             (ERROR_TAG @ '' invoke(): Response format must be one of the following: ''
                @ join '','' responseOptions) of
        Some e \<Rightarrow> Inl e
      | None \<Rightarrow>
     (case arguments params of
        None \<Rightarrow> Inl (TypeError ''_'')
      | Some args \<Rightarrow>
     (case toBeAnArray (positionals args)
             (ERROR_TAG @ '' invoke(): The command arguments object supplied does not contain an array of args.'') of
        Some e \<Rightarrow> Inl e
      | None \<Rightarrow>
     (if def_chainedHandlers (definition_copy p) = None then
        (case toNotBeNullOrUndefined (def_handler (definition_copy p))
                (ERROR_TAG @ '' invoke(): Cannot invoke the command ''
                   @ quoted (def_name (definition_copy p))
                   @ ''. It has no handler and no chained handlers.'') of
           Some e \<Rightarrow> Inl e
         | None \<Rightarrow>
        (case def_handler (definition_copy p) of
           None \<Rightarrow> Inl (TypeError ''trim'')
         | Some h \<Rightarrow>
        (case toNotBeEqual (trim h) []
                (ERROR_TAG @ '' invoke(): Cannot invoke the handler for command ''
                   @ quoted (def_name (definition_copy p)) @ ''. The handler is blank.'') of
           Some e \<Rightarrow> Inl e
         | None \<Rightarrow> Inr (params, args))))
      else Inr (params, args)))))))))"

text \<open>The \<^verbatim>\<open>catch\<close> block of the validation.\<close>

definition validation_threw :: "thrown \<Rightarrow> CommandResponse \<Rightarrow> event list
    \<Rightarrow> (thrown + ICommandResponse) traced" where
  "validation_threw e response tr =
     (case get_message e of
        Inl typeError \<Rightarrow> (Inl typeError, tr)
      | Inr m \<Rightarrow>
          (let errMsg = ''Unexpected syntax validation error'';
               errReason = errMsg @ '': '' @ js_to_string m;
               r1 = setMessage errReason response;
               r2 = console_errorHeader errMsg r1;
               r3 = console_error m r2;
               r4 = setError ((error_msg errMsg)\<lparr>additionalDetails := m\<rparr>) r3;
               r5 = failed r4
           in finishResponse r5 tr))"

text \<open>The branch \<^verbatim>\<open>if (!validator.valid)\<close>.\<close>

definition syntax_invalid :: "CommandProcessor \<Rightarrow> Arguments \<Rightarrow> CommandResponse \<Rightarrow> event list
    \<Rightarrow> (thrown + ICommandResponse) traced" where
  "syntax_invalid p args response tr =
     (let r1 = setMessage ''Command syntax invalid'' response;
          r2 = failed r1
      in case positionals args of
           None \<Rightarrow> (Inl (TypeError ''length''), tr)
         | Some ws \<Rightarrow>
             (let finalHelp =
                    (if length ws > 0 then
                       [CHR 0x0A] @ ''Use '' @ quoted (mCommandRootName p @ '' '' @ join '' '' ws @ '' --help'')
                         @ '' to view command description, usage, and options.''
                     else
                       [CHR 0x0A] @ ''Use '' @ quoted (def_name (definition_copy p) @ '' --help'')
                         @ '' to view command description, usage, and options.'');
                  r3 = console_error (JStr finalHelp) r2
              in finishResponse r3 tr))"

text \<open>The \<^verbatim>\<open>catch\<close> block of the preparation.\<close>

definition preparation_threw :: "thrown \<Rightarrow> CommandResponse \<Rightarrow> event list
    \<Rightarrow> (thrown + ICommandResponse) traced" where
  "preparation_threw prepareErr response tr =
     (let r1 = failed response in
      case get_message prepareErr of
        Inl typeError \<Rightarrow> (Inl typeError, tr)
      | Inr m \<Rightarrow>
          (let err = (if truthy m then js_to_string m else ''Internal Error: No cause message present.'');
               r2 = setMessage err r1;
               r3 = console_errorHeader ''Command Preparation Failed'' r2;
               r4 = console_error (JStr err) r3;
               impErr = error_msg err
           in case get_details_additionalDetails prepareErr of
                Inl typeError \<Rightarrow> (Inl typeError, tr)
              | Inr ad \<Rightarrow>
                  (if ad \<noteq> JUndefined \<and> ad \<noteq> JNull \<and> is_string ad then
                     (let r5 = console_errorHeader ''Error Details'' r4;
                          r6 = console_error ad r5
                      in finishResponse (setError (impErr\<lparr>additionalDetails := ad\<rparr>) r6) tr)
                   else finishResponse (setError impErr r4) tr)))"

text \<open>The single handler: the branch \<^verbatim>\<open>if (this.definition.handler != null)\<close>.\<close>

definition invoke_handler :: "'p environment \<Rightarrow> CommandProcessor \<Rightarrow> 'p \<Rightarrow> Arguments
    \<Rightarrow> CommandResponse \<Rightarrow> string \<Rightarrow> event list \<Rightarrow> (thrown + ICommandResponse) traced" where
  "invoke_handler env p prof args response handlerPath tr =
     (case attemptHandlerLoad env p response handlerPath tr of
        (Inl e, tr1) \<Rightarrow> (Inl e, tr1)
      | (Inr (None, r), tr1) \<Rightarrow> finishResponse r tr1
      | (Inr (Some h, r), tr1) \<Rightarrow>
          (case process h \<lparr>profiles = prof, hp_arguments = args, definition_of = definition_copy p,
                   fullDefinition_of = fullDefinition_copy p, isChained = False\<rparr> r of
             (Some processErr, r') \<Rightarrow>
               finishResponse (handleHandlerError processErr r' handlerPath) (tr1 @ [Process handlerPath])
           | (None, r') \<Rightarrow>
               finishResponse (endProgressBar (succeeded r')) (tr1 @ [Process handlerPath])))"

text \<open>
  The variables of the chained branch that change from one step to the next. Before the
  first step no per-step response has been constructed.
\<close>

record chain_state =
  chainedResponses :: "jsval list"
  chainedResponse :: "CommandResponse option"
  bufferedStdOut :: "console_item list"
  bufferedStdErr :: "console_item list"
  chain_trace :: "event list"

datatype step_result = Continue chain_state | Return "(thrown + ICommandResponse) traced"

text \<open>The per-step response: fresh, then given the output of the steps before.\<close>

definition step_response :: "'p environment \<Rightarrow> Arguments \<Rightarrow> IChainedHandlerEntry \<Rightarrow> chain_state
    \<Rightarrow> CommandResponse" where
  "step_response env args chainedHandler st =
     bufferStderr (bufferedStdErr st) (bufferStdout (bufferedStdOut st)
       (constructResponseObject
          \<lparr>arguments = Some args, silent = ch_silent chainedHandler,
           responseFormat = Some (if truthy (property (named args) (JSON_OPTION env))
                                  then ''json'' else ''default'')\<rparr>))"

text \<open>One pass through the body of the loop over the chained handlers.\<close>

definition chain_step :: "'p environment \<Rightarrow> CommandProcessor \<Rightarrow> 'p \<Rightarrow> Arguments \<Rightarrow> CommandResponse
    \<Rightarrow> IChainedHandlerEntry list \<Rightarrow> nat \<Rightarrow> IChainedHandlerEntry \<Rightarrow> chain_state \<Rightarrow> step_result" where
  "chain_step env p prof args response chain chainedHandlerIndex chainedHandler st =
     (case attemptHandlerLoad env p response (ch_handler chainedHandler) (chain_trace st) of
        (Inl e, tr1) \<Rightarrow> Return (Inl e, tr1)
      | (Inr (None, r), tr1) \<Rightarrow> Return (finishResponse r tr1)
      | (Inr (Some h, r), tr1) \<Rightarrow>
          (let cr = step_response env args chainedHandler st in
           case getArguments env (mCommandRootName p) chain chainedHandlerIndex
                  (chainedResponses st) args of
             Inl processErr \<Rightarrow>
               Return (finishResponse (handleHandlerError processErr cr (ch_handler chainedHandler)) tr1)
           | Inr stepArgs \<Rightarrow>
               (case process h \<lparr>profiles = prof, hp_arguments = stepArgs,
                        definition_of = definition_copy p,
                        fullDefinition_of = fullDefinition_copy p, isChained = True\<rparr> cr of
                  (Some processErr, cr') \<Rightarrow>
                    Return (finishResponse (handleHandlerError processErr cr' (ch_handler chainedHandler))
                              (tr1 @ [Process (ch_handler chainedHandler)]))
                | (None, cr') \<Rightarrow>
                    (let builtResponse = buildJsonResponse cr' in
                     Continue \<lparr>chainedResponses = chainedResponses st @ [data builtResponse],
                               chainedResponse = Some cr',
                               bufferedStdOut = stdout builtResponse,
                               bufferedStdErr = stderr builtResponse,
                               chain_trace = tr1 @ [Process (ch_handler chainedHandler)]\<rparr>))))"

text \<open>
  The loop over the steps that remain, and what follows it: the top-level response is
  marked succeeded, and \<^verbatim>\<open>finishResponse\<close> is applied to the per-step response of the
  last pass, which is \<^verbatim>\<open>undefined\<close> when there was no pass.
\<close>

fun chain_loop :: "'p environment \<Rightarrow> CommandProcessor \<Rightarrow> 'p \<Rightarrow> Arguments \<Rightarrow> CommandResponse
    \<Rightarrow> IChainedHandlerEntry list \<Rightarrow> nat \<Rightarrow> IChainedHandlerEntry list \<Rightarrow> chain_state
    \<Rightarrow> (thrown + ICommandResponse) traced" where
  "chain_loop env p prof args response chain chainedHandlerIndex [] st =
     (case chainedResponse st of
        None \<Rightarrow> (Inl (TypeError ''buildJsonResponse''), chain_trace st)
      | Some cr \<Rightarrow> finishResponse cr (chain_trace st))"
| "chain_loop env p prof args response chain chainedHandlerIndex (chainedHandler # rest) st =
     (case chain_step env p prof args response chain chainedHandlerIndex chainedHandler st of
        Return out \<Rightarrow> out
      | Continue st' \<Rightarrow> chain_loop env p prof args response chain (Suc chainedHandlerIndex) rest st')"

definition initial_chain_state :: "event list \<Rightarrow> chain_state" where
  "initial_chain_state tr =
     \<lparr>chainedResponses = [], chainedResponse = None, bufferedStdOut = [], bufferedStdErr = [],
      chain_trace = tr\<rparr>"

text \<open>
  How the promise returned by \<^verbatim>\<open>invoke\<close> settles: with a snapshot, with
  \<^verbatim>\<open>undefined\<close> (the end of the function body), or rejected with a thrown value.
\<close>

datatype settled = Resolved ICommandResponse | ResolvedUndefined | Rejected thrown

definition settle :: "(thrown + ICommandResponse) traced \<Rightarrow> settled traced" where
  "settle out = (case out of (Inl e, tr) \<Rightarrow> (Rejected e, tr) | (Inr json, tr) \<Rightarrow> (Resolved json, tr))"

definition invoke :: "'p environment \<Rightarrow> CommandProcessor \<Rightarrow> IInvokeCommandParms option
    \<Rightarrow> settled traced" where
  "invoke env p params_opt =
     (case precheck p params_opt of
        Inl e \<Rightarrow> (Rejected e, [])
      | Inr (params, args) \<Rightarrow>
          (let response = succeeded (constructResponseObject params) in
           case validate env p args response of
             (Inl e, r) \<Rightarrow> settle (validation_threw e r [Validate])
           | (Inr validator, r) \<Rightarrow>
               (if \<not> valid validator then settle (syntax_invalid p args r [Validate])
                else
                  (case prepare env p r args of
                     (Inl prepareErr, args', r') \<Rightarrow>
                       settle (preparation_threw prepareErr r' [Validate, Prepare])
                   | (Inr prof, args', r') \<Rightarrow>
                       (case def_handler (definition_copy p) of
                          Some handlerPath \<Rightarrow>
                            settle (invoke_handler env p prof args' r' handlerPath [Validate, Prepare])
                        | None \<Rightarrow>
                            (case def_chainedHandlers (definition_copy p) of
                               Some chain \<Rightarrow>
                                 settle (chain_loop env p prof args' r' chain 0 chain
                                           (initial_chain_state [Validate, Prepare]))
                             | None \<Rightarrow> (ResolvedUndefined, [Validate, Prepare])))))))"

subsection \<open>Notions used to state the properties of the chained branch\<close>

text \<open>
  The state of the loop after the steps \<open>before\<close> have all completed a pass without
  leaving the loop, starting at index \<open>chainedHandlerIndex\<close>; \<open>None\<close> when one of them
  returned from \<^verbatim>\<open>invoke\<close>.
\<close>

fun chain_after :: "'p environment \<Rightarrow> CommandProcessor \<Rightarrow> 'p \<Rightarrow> Arguments \<Rightarrow> CommandResponse
    \<Rightarrow> IChainedHandlerEntry list \<Rightarrow> nat \<Rightarrow> IChainedHandlerEntry list \<Rightarrow> chain_state
    \<Rightarrow> chain_state option" where
  "chain_after env p prof args response chain chainedHandlerIndex [] st = Some st"
| "chain_after env p prof args response chain chainedHandlerIndex (chainedHandler # rest) st =
     (case chain_step env p prof args response chain chainedHandlerIndex chainedHandler st of
        Return out \<Rightarrow> None
      | Continue st' \<Rightarrow> chain_after env p prof args response chain (Suc chainedHandlerIndex) rest st')"

text \<open>The handlers whose \<^verbatim>\<open>process\<close> method was called, in the order of the calls.\<close>

fun processed :: "event list \<Rightarrow> string list" where
  "processed [] = []"
| "processed (Process path # tr) = path # processed tr"
| "processed (ev # tr) = processed tr"

section \<open>A sample command line\<close>

text \<open>
  A root command \<^verbatim>\<open>zowe\<close> with the command \<^verbatim>\<open>greet\<close>. The validator requires the
  option \<^verbatim>\<open>name\<close> and crashes on the option \<^verbatim>\<open>explode\<close>; the profile loader fails
  for the profiles \<^verbatim>\<open>unnamed\<close> (an ImperativeError with an empty message) and
  \<^verbatim>\<open>absent\<close>; the handler \<^verbatim>\<open>say\<close> prints a greeting, the handler \<^verbatim>\<open>throw42\<close>
  prints and throws the number 42, and the constructor of any other handler throws.
\<close>

definition sample_env :: "unit environment" where
  "sample_env =
     \<lparr>syntaxValidator = (\<lambda>d fd r a.
         if map_of (named a) ''explode'' \<noteq> None then (Inl (Error ''validator crashed'' None), r)
         else if map_of (named a) ''name'' = None
         then (Inr \<lparr>valid = False\<rparr>, console_error (JStr ''Missing Required Option: name'') r)
         else (Inr \<lparr>valid = True\<rparr>, r)),
      readStdinIfRequested = (\<lambda>a r t. (None, a, r)),
      loadProfiles = (\<lambda>d a.
         if map_of (named a) ''profile'' = Some (JStr ''unnamed'')
         then Inl (ImperativeError (error_msg []))
         else if map_of (named a) ''profile'' = Some (JStr ''absent'')
         then Inl (ImperativeError ((error_msg ''Profile not found'')\<lparr>additionalDetails := JStr ''type: main''\<rparr>))
         else Inr ()),
      require = (\<lambda>path.
         if path = ''say'' then Inr (\<lambda>hp r. (None, console_log (JStr ''hello'') r))
         else if path = ''throw42'' then Inr (\<lambda>hp r. (Some (Thrown (JNum 42)), console_log (JStr ''bye'') r))
         else Inl (Error ''constructor failed'' None)),
      getArguments = (\<lambda>root chain i prior a. Inr a),
      normalize = (\<lambda>path. path),
      couldNotInstatiateCommandHandler = (\<lambda>h d.
         ''Could not instantiate the handler '' @ h @ '' for command '' @ d),
      JSON_OPTION = ''response-format-json''\<rparr>"

definition sample_step :: "string \<Rightarrow> IChainedHandlerEntry" where
  "sample_step path = \<lparr>ch_handler = path, ch_silent = None, ch_mapping = JArr []\<rparr>"

definition sample_definition :: "string option \<Rightarrow> string list option \<Rightarrow> ICommandDefinition" where
  "sample_definition h chain =
     \<lparr>def_name = ''greet'', def_type = ''command'', def_handler = h,
      def_chainedHandlers = map_option (map sample_step) chain\<rparr>"

definition sample_processor :: "string option \<Rightarrow> string list option \<Rightarrow> CommandProcessor" where
  "sample_processor h chain =
     \<lparr>mCommandRootName = ''zowe'', mDefinition = sample_definition h chain,
      mFullDefinition = sample_definition h chain\<rparr>"

definition sample_args :: "string list \<Rightarrow> (string \<times> jsval) list \<Rightarrow> Arguments" where
  "sample_args ws opts = \<lparr>positionals = Some ws, named = opts\<rparr>"

definition sample_params :: "string list \<Rightarrow> (string \<times> jsval) list \<Rightarrow> IInvokeCommandParms" where
  "sample_params ws opts = \<lparr>arguments = Some (sample_args ws opts), silent = None, responseFormat = None\<rparr>"

text \<open>A fresh, not silent response in the default format that holds the output \<open>out\<close>.\<close>

definition said :: "console_item list \<Rightarrow> CommandResponse" where
  "said out = (new_CommandResponse False ''default'')\<lparr>mStdout := out\<rparr>"

section \<open>Properties of the credential manager\<close>

text \<open>
  C8. \<^verbatim>\<open>save(account, secureValue)\<close> throws the ImperativeError "Missing Secure Field"
  exactly when \<open>secureValue\<close> is null, undefined or the empty string, and then the state
  of the backing store is the one before the call. For every other string it hands the
  base64 text of the string's UTF-8 bytes to \<^verbatim>\<open>saveCredentials\<close>, which, when the
  backing store does not throw, returns normally.
\<close>

theorem save_missing_secure_field:
  assumes "\<And>acc c st. fst (saveCredentials m acc c st) = Inr ()"
  shows "((\<exists>e. fst (save m a v s) = Inl e) \<longleftrightarrow> v = SecureNull \<or> v = SecureUndefined \<or> v = SecureString [])
       \<and> (v = SecureNull \<or> v = SecureUndefined \<or> v = SecureString [] \<longrightarrow>
            save m a v s = (Inl (ImperativeError (error_msg ''Missing Secure Field'')), s))
       \<and> (\<forall>x. v = SecureString x \<and> x \<noteq> [] \<longrightarrow>
            save m a v s = saveCredentials m a (Buffer_toString_base64 (Buffer_from x)) s
            \<and> fst (save m a v s) = Inr ())"
  using assms by (cases v) (auto simp: save_def)

theorem save_missing_secure_field_witness:
  "save map_store [0x61] (SecureString []) Map.empty
     = (Inl (ImperativeError (error_msg ''Missing Secure Field'')), Map.empty)
   \<and> save map_store [0x61] (SecureString [0x70, 0x77]) Map.empty
     = (Inr (), [[0x61] \<mapsto> [0x63, 0x48, 0x63, 0x3D]])"
proof -
  have h: "\<And>acc c st. fst (saveCredentials map_store acc c st) = Inr ()"
    by (simp add: map_store_def)
  have enc: "Buffer_toString_base64 (Buffer_from [0x70, 0x77]) = [0x63, 0x48, 0x63, 0x3D]"
    by (simp add: Buffer_toString_base64_def Buffer_from_def utf8_bytes_def lone_unit_def
        is_high_surrogate_def is_low_surrogate_def base64_char_def base64_padding_def)
  have st: "saveCredentials map_store [0x61] [0x63, 0x48, 0x63, 0x3D] Map.empty
      = (Inr (), [[0x61] \<mapsto> [0x63, 0x48, 0x63, 0x3D]])"
    by (simp add: map_store_def)
  from save_missing_secure_field [OF h, of "[0x61]" "SecureString []" Map.empty]
    save_missing_secure_field [OF h, of "[0x61]" "SecureString [0x70, 0x77]" Map.empty]
  show ?thesis by (simp add: enc st)
qed

subsection \<open>Base64 decodes what it encoded\<close>

lemma unat_byte: "n < 256 \<Longrightarrow> unat (of_nat n :: 8 word) = n"
  by (simp add: unat_of_nat)

lemma unat_unit: "n < 65536 \<Longrightarrow> unat (of_nat n :: 16 word) = n"
  by (simp add: unat_of_nat)

lemma byte_less: "unat (a :: 8 word) < 256"
  using unsigned_less [of a, where ?'a = nat] by simp

lemma unit_less: "unat (u :: 16 word) < 65536"
  using unsigned_less [of u, where ?'a = nat] by simp

lemma unat_base64_char:
  "i < 64 \<Longrightarrow> unat (base64_char i) =
     (if i < 26 then 65 + i else if i < 52 then 71 + i else if i < 62 then i - 4
      else if i = 62 then 43 else 47)"
  unfolding base64_char_def
  apply (simp only: if_distrib [of unat] unat_of_nat)
  apply simp
  done

lemma unbase64_base64_char: "i < 64 \<Longrightarrow> unbase64 (base64_char i) = Some i"
  unfolding unbase64_def Let_def by (simp only: unat_base64_char) auto

lemma base64_char_not_padding: "i < 64 \<Longrightarrow> base64_char i \<noteq> 61"
proof
  assume i: "i < 64" and "base64_char i = 61"
  then have "unat (base64_char i) = 61" by simp
  then show False unfolding unat_base64_char [OF i] by (simp split: if_splits)
qed



lemma sextet_bounds:
  fixes a b c :: nat
  assumes "a < 256" "b < 256" "c < 256"
  shows "a div 4 < 64" "a mod 4 * 16 < 64" "a mod 4 * 16 + b div 16 < 64" "b mod 16 * 4 < 64"
    "b mod 16 * 4 + c div 64 < 64" "c mod 64 < 64"
  using assms by linarith+

lemma pack:
  fixes x y k :: nat
  assumes "y < k"
  shows "(x * k + y) div k = x" "(x * k + y) mod k = y"
  using assms by simp_all

lemma byte_parts:
  fixes b :: nat
  assumes "b < 256"
  shows "b div 16 < 16" "b div 64 < 4" "b mod 4 < 4" "b mod 16 < 16"
  using assms by linarith+

lemma sextet_join:
  fixes a b c :: nat
  assumes "b < 256" "c < 256"
  shows "a div 4 * 4 + a mod 4 * 16 div 16 = a"
    "a div 4 * 4 + (a mod 4 * 16 + b div 16) div 16 = a"
    "(a mod 4 * 16 + b div 16) mod 16 * 16 + b mod 16 * 4 div 4 = b"
    "(a mod 4 * 16 + b div 16) mod 16 * 16 + (b mod 16 * 4 + c div 64) div 4 = b"
    "(b mod 16 * 4 + c div 64) mod 4 * 64 + c mod 64 = c"
  using byte_parts [OF assms(1)] byte_parts [OF assms(2)]
  by (simp_all add: pack)

lemma sextets_bound: "\<forall>x \<in> set (sextets buf). x < 64"
proof (induction buf rule: sextets.induct)
  case 1
  then show ?case by simp
next
  case (2 a)
  show ?case using sextet_bounds(1,2) [OF byte_less [of a] byte_less [of a] byte_less [of a]] by simp
next
  case (3 a b)
  show ?case using sextet_bounds(1,3,4) [OF byte_less [of a] byte_less [of b] byte_less [of b]] by simp
next
  case (4 a b c r)
  show ?case using 4 sextet_bounds(1,3,5,6) [OF byte_less [of a] byte_less [of b] byte_less [of c]] by simp
qed

lemma unsextets_sextets: "unsextets (sextets buf) = buf"
proof (induction buf rule: sextets.induct)
  case 1
  then show ?case by simp
next
  case (2 a)
  show ?case using sextet_join(1) [OF byte_less [of a] byte_less [of a]] by simp
next
  case (3 a b)
  show ?case using sextet_join(2,3) [OF byte_less [of b] byte_less [of b]] by simp
next
  case (4 a b c r)
  show ?case using 4 sextet_join(2,4,5) [OF byte_less [of b] byte_less [of c]] by simp
qed

lemma takeWhile_padding:
  "\<forall>x \<in> set xs. x < 64 \<Longrightarrow>
   takeWhile (\<lambda>c. c \<noteq> 61) (map base64_char xs @ replicate k 61) = map base64_char xs"
proof (induction xs)
  case Nil
  show ?case by (cases k) simp_all
next
  case (Cons x xs)
  then show ?case by (simp add: base64_char_not_padding)
qed

lemma map_filter_unbase64:
  "\<forall>x \<in> set xs. x < 64 \<Longrightarrow> List.map_filter unbase64 (map base64_char xs) = xs"
  by (induction xs) (simp_all add: unbase64_base64_char)

lemma base64_roundtrip: "Buffer_from_base64 (Buffer_toString_base64 buf) = buf"
  by (simp add: Buffer_from_base64_def Buffer_toString_base64_def base64_padding_def
      takeWhile_padding map_filter_unbase64 sextets_bound unsextets_sextets)

subsection \<open>UTF-8 decodes what it encoded\<close>

lemma decode1:
  "b < 0x80 \<Longrightarrow> utf8_decode 0 0 0x80 0xBF (b # rest) = b # utf8_decode 0 0 0x80 0xBF rest"
  by simp

lemma decode2:
  "0xC2 \<le> b1 \<Longrightarrow> b1 \<le> 0xDF \<Longrightarrow> 0x80 \<le> b2 \<Longrightarrow> b2 \<le> 0xBF \<Longrightarrow>
   utf8_decode 0 0 0x80 0xBF (b1 # b2 # rest)
     = (b1 mod 32 * 64 + b2 mod 64) # utf8_decode 0 0 0x80 0xBF rest"
  by simp

lemma decode3:
  "0xE0 \<le> b1 \<Longrightarrow> b1 \<le> 0xEF \<Longrightarrow> (b1 = 0xE0 \<longrightarrow> 0xA0 \<le> b2) \<Longrightarrow> (b1 = 0xED \<longrightarrow> b2 \<le> 0x9F) \<Longrightarrow>
   0x80 \<le> b2 \<Longrightarrow> b2 \<le> 0xBF \<Longrightarrow> 0x80 \<le> b3 \<Longrightarrow> b3 \<le> 0xBF \<Longrightarrow>
   utf8_decode 0 0 0x80 0xBF (b1 # b2 # b3 # rest)
     = ((b1 mod 16 * 64 + b2 mod 64) * 64 + b3 mod 64) # utf8_decode 0 0 0x80 0xBF rest"
  by auto

lemma decode4:
  "0xF0 \<le> b1 \<Longrightarrow> b1 \<le> 0xF4 \<Longrightarrow> (b1 = 0xF0 \<longrightarrow> 0x90 \<le> b2) \<Longrightarrow> (b1 = 0xF4 \<longrightarrow> b2 \<le> 0x8F) \<Longrightarrow>
   0x80 \<le> b2 \<Longrightarrow> b2 \<le> 0xBF \<Longrightarrow> 0x80 \<le> b3 \<Longrightarrow> b3 \<le> 0xBF \<Longrightarrow> 0x80 \<le> b4 \<Longrightarrow> b4 \<le> 0xBF \<Longrightarrow>
   utf8_decode 0 0 0x80 0xBF (b1 # b2 # b3 # b4 # rest)
     = (((b1 mod 8 * 64 + b2 mod 64) * 64 + b3 mod 64) * 64 + b4 mod 64) # utf8_decode 0 0 0x80 0xBF rest"
  by auto

lemma lead_mod:
  fixes x :: nat
  shows "x < 32 \<Longrightarrow> (192 + x) mod 32 = x"
    and "x < 16 \<Longrightarrow> (224 + x) mod 16 = x"
    and "x < 8 \<Longrightarrow> (240 + x) mod 8 = x"
    and "x < 64 \<Longrightarrow> (128 + x) mod 64 = x"
proof -
  have "(192 + x) mod 32 = (6 * 32 + x) mod 32" by simp
  also have "\<dots> = x mod 32" by (rule mod_mult_self3)
  finally show "x < 32 \<Longrightarrow> (192 + x) mod 32 = x" by simp
  have "(224 + x) mod 16 = (14 * 16 + x) mod 16" by simp
  also have "\<dots> = x mod 16" by (rule mod_mult_self3)
  finally show "x < 16 \<Longrightarrow> (224 + x) mod 16 = x" by simp
  have "(240 + x) mod 8 = (30 * 8 + x) mod 8" by simp
  also have "\<dots> = x mod 8" by (rule mod_mult_self3)
  finally show "x < 8 \<Longrightarrow> (240 + x) mod 8 = x" by simp
  have "(128 + x) mod 64 = (2 * 64 + x) mod 64" by simp
  also have "\<dots> = x mod 64" by (rule mod_mult_self3)
  finally show "x < 64 \<Longrightarrow> (128 + x) mod 64 = x" by simp
qed

lemma nested_div:
  fixes cp :: nat
  shows "cp div 4096 = cp div 64 div 64" "cp div 262144 = cp div 64 div 64 div 64"
  by (simp_all add: div_mult2_eq [symmetric])

lemma split_code_point:
  fixes cp :: nat
  shows "cp div 64 * 64 + cp mod 64 = cp"
    and "(cp div 4096 * 64 + cp div 64 mod 64) * 64 + cp mod 64 = cp"
    and "((cp div 262144 * 64 + cp div 4096 mod 64) * 64 + cp div 64 mod 64) * 64 + cp mod 64 = cp"
  by (simp_all add: nested_div)

lemma utf8_one:
  assumes "cp < 0x80"
  shows "utf8_decode 0 0 0x80 0xBF (map unat (utf8_bytes cp) @ rest) = cp # utf8_decode 0 0 0x80 0xBF rest"
proof -
  have u: "unat (of_nat cp :: 8 word) = cp"
    by (rule unat_byte) (use assms in linarith)
  have bytes: "utf8_bytes cp = [of_nat cp]"
    using assms by (simp add: utf8_bytes_def)
  have "map unat (utf8_bytes cp) @ rest = cp # rest"
    by (simp only: bytes list.map u append.simps)
  then show ?thesis using assms by (simp only: decode1)
qed

lemma utf8_two:
  assumes "0x80 \<le> cp" "cp < 0x800"
  shows "utf8_decode 0 0 0x80 0xBF (map unat (utf8_bytes cp) @ rest) = cp # utf8_decode 0 0 0x80 0xBF rest"
proof -
  define x where "x = cp div 64"
  define z where "z = cp mod 64"
  have id: "x * 64 + z = cp" and z: "z < 64"
    by (simp_all add: x_def z_def)
  have x: "2 \<le> x" "x < 32" using id z assms by linarith+
  have u1: "unat (of_nat (192 + x) :: 8 word) = 192 + x"
    by (rule unat_byte) (use x in linarith)
  have u2: "unat (of_nat (128 + z) :: 8 word) = 128 + z"
    by (rule unat_byte) (use z in linarith)
  have bytes: "utf8_bytes cp = [of_nat (192 + x), of_nat (128 + z)]"
    using assms by (simp add: utf8_bytes_def x_def z_def)
  have "map unat (utf8_bytes cp) @ rest = (192 + x) # (128 + z) # rest"
    by (simp only: bytes list.map u1 u2 append.simps)
  moreover have "utf8_decode 0 0 0x80 0xBF ((192 + x) # (128 + z) # rest)
      = ((192 + x) mod 32 * 64 + (128 + z) mod 64) # utf8_decode 0 0 0x80 0xBF rest"
    by (rule decode2) (use x z in linarith)+
  ultimately show ?thesis
    by (simp only: lead_mod(1) [OF x(2)] lead_mod(4) [OF z] id)
qed

lemma utf8_three:
  assumes "0x800 \<le> cp" "cp < 0x10000" "\<not> (0xD800 \<le> cp \<and> cp \<le> 0xDFFF)"
  shows "utf8_decode 0 0 0x80 0xBF (map unat (utf8_bytes cp) @ rest) = cp # utf8_decode 0 0 0x80 0xBF rest"
proof -
  define x where "x = cp div 4096"
  define y where "y = cp div 64 mod 64"
  define z where "z = cp mod 64"
  have id: "(x * 64 + y) * 64 + z = cp"
    unfolding x_def y_def z_def by (rule split_code_point(2))
  have y: "y < 64" and z: "z < 64"
    by (simp_all add: y_def z_def)
  have lin: "x * 4096 + y * 64 + z = cp" using id by simp
  have x: "x < 16" using lin assms(2) by linarith
  have lo: "x = 0 \<longrightarrow> 32 \<le> y"
  proof
    assume "x = 0"
    with lin have "y * 64 + z = cp" by simp
    with z assms(1) show "32 \<le> y" by linarith
  qed
  have hi: "x = 13 \<longrightarrow> y < 32"
  proof
    assume "x = 13"
    with lin have "53248 + y * 64 + z = cp" by simp
    with y z assms(2,3) show "y < 32" by linarith
  qed
  have u1: "unat (of_nat (224 + x) :: 8 word) = 224 + x"
    by (rule unat_byte) (use x in linarith)
  have u2: "unat (of_nat (128 + y) :: 8 word) = 128 + y"
    by (rule unat_byte) (use y in linarith)
  have u3: "unat (of_nat (128 + z) :: 8 word) = 128 + z"
    by (rule unat_byte) (use z in linarith)
  have bytes: "utf8_bytes cp = [of_nat (224 + x), of_nat (128 + y), of_nat (128 + z)]"
    using assms by (simp add: utf8_bytes_def x_def y_def z_def)
  have "map unat (utf8_bytes cp) @ rest = (224 + x) # (128 + y) # (128 + z) # rest"
    by (simp only: bytes list.map u1 u2 u3 append.simps)
  moreover have "utf8_decode 0 0 0x80 0xBF ((224 + x) # (128 + y) # (128 + z) # rest)
      = (((224 + x) mod 16 * 64 + (128 + y) mod 64) * 64 + (128 + z) mod 64)
        # utf8_decode 0 0 0x80 0xBF rest"
  proof (rule decode3)
    show "0xE0 \<le> 224 + x" by simp
    show "224 + x \<le> 0xEF" using x by linarith
    show "224 + x = 0xE0 \<longrightarrow> 0xA0 \<le> 128 + y" using lo by simp
    show "224 + x = 0xED \<longrightarrow> 128 + y \<le> 0x9F"
    proof
      assume "224 + x = 0xED"
      then have "x = 13" by simp
      with hi have "y < 32" by simp
      then show "128 + y \<le> 0x9F" by linarith
    qed
    show "0x80 \<le> 128 + y" by simp
    show "128 + y \<le> 0xBF" using y by linarith
    show "0x80 \<le> 128 + z" by simp
    show "128 + z \<le> 0xBF" using z by linarith
  qed
  ultimately show ?thesis
    by (simp only: lead_mod(2) [OF x] lead_mod(4) [OF y] lead_mod(4) [OF z] id)
qed

lemma utf8_four:
  assumes "0x10000 \<le> cp" "cp < 0x110000"
  shows "utf8_decode 0 0 0x80 0xBF (map unat (utf8_bytes cp) @ rest) = cp # utf8_decode 0 0 0x80 0xBF rest"
proof -
  define w where "w = cp div 262144"
  define x where "x = cp div 4096 mod 64"
  define y where "y = cp div 64 mod 64"
  define z where "z = cp mod 64"
  have id: "((w * 64 + x) * 64 + y) * 64 + z = cp"
    unfolding w_def x_def y_def z_def by (rule split_code_point(3))
  have x: "x < 64" and y: "y < 64" and z: "z < 64"
    by (simp_all add: x_def y_def z_def)
  have lin: "w * 262144 + x * 4096 + y * 64 + z = cp" using id by simp
  have w: "w < 5" using lin assms(2) by linarith
  have lo: "w = 0 \<longrightarrow> 16 \<le> x"
  proof
    assume "w = 0"
    with lin have "x * 4096 + y * 64 + z = cp" by simp
    with y z assms(1) show "16 \<le> x" by linarith
  qed
  have hi: "w = 4 \<longrightarrow> x < 16"
  proof
    assume "w = 4"
    with lin have "1048576 + x * 4096 + y * 64 + z = cp" by simp
    with assms(2) show "x < 16" by linarith
  qed
  have u1: "unat (of_nat (240 + w) :: 8 word) = 240 + w"
    by (rule unat_byte) (use w in linarith)
  have u2: "unat (of_nat (128 + x) :: 8 word) = 128 + x"
    by (rule unat_byte) (use x in linarith)
  have u3: "unat (of_nat (128 + y) :: 8 word) = 128 + y"
    by (rule unat_byte) (use y in linarith)
  have u4: "unat (of_nat (128 + z) :: 8 word) = 128 + z"
    by (rule unat_byte) (use z in linarith)
  have bytes: "utf8_bytes cp = [of_nat (240 + w), of_nat (128 + x), of_nat (128 + y), of_nat (128 + z)]"
    using assms by (simp add: utf8_bytes_def w_def x_def y_def z_def)
  have "map unat (utf8_bytes cp) @ rest = (240 + w) # (128 + x) # (128 + y) # (128 + z) # rest"
    by (simp only: bytes list.map u1 u2 u3 u4 append.simps)
  moreover have "utf8_decode 0 0 0x80 0xBF ((240 + w) # (128 + x) # (128 + y) # (128 + z) # rest)
      = ((((240 + w) mod 8 * 64 + (128 + x) mod 64) * 64 + (128 + y) mod 64) * 64 + (128 + z) mod 64)
        # utf8_decode 0 0 0x80 0xBF rest"
  proof (rule decode4)
    show "0xF0 \<le> 240 + w" by simp
    show "240 + w \<le> 0xF4" using w by linarith
    show "240 + w = 0xF0 \<longrightarrow> 0x90 \<le> 128 + x" using lo by simp
    show "240 + w = 0xF4 \<longrightarrow> 128 + x \<le> 0x8F"
    proof
      assume "240 + w = 0xF4"
      then have "w = 4" by simp
      with hi have "x < 16" by simp
      then show "128 + x \<le> 0x8F" by linarith
    qed
    show "0x80 \<le> 128 + x" by simp
    show "128 + x \<le> 0xBF" using x by linarith
    show "0x80 \<le> 128 + y" by simp
    show "128 + y \<le> 0xBF" using y by linarith
    show "0x80 \<le> 128 + z" by simp
    show "128 + z \<le> 0xBF" using z by linarith
  qed
  ultimately show ?thesis
    using w by (simp only: lead_mod(3) lead_mod(4) [OF x] lead_mod(4) [OF y] lead_mod(4) [OF z] id)
qed

lemma utf8_code_point:
  assumes "scalar cp"
  shows "utf8_decode 0 0 0x80 0xBF (map unat (utf8_bytes cp) @ rest) = cp # utf8_decode 0 0 0x80 0xBF rest"
proof -
  consider "cp < 0x80" | "0x80 \<le> cp" "cp < 0x800" | "0x800 \<le> cp" "cp < 0x10000"
    | "0x10000 \<le> cp" "cp < 0x110000"
    using assms unfolding scalar_def by linarith
  then show ?thesis
  proof cases
    case 1
    then show ?thesis by (rule utf8_one)
  next
    case 2
    then show ?thesis by (rule utf8_two)
  next
    case 3
    then show ?thesis using assms unfolding scalar_def by (intro utf8_three) simp_all
  next
    case 4
    then show ?thesis by (rule utf8_four)
  qed
qed

lemma utf8_code_points:
  "\<forall>cp \<in> set cps. scalar cp \<Longrightarrow>
   utf8_decode 0 0 0x80 0xBF (map unat (concat (map utf8_bytes cps))) = cps"
  by (induction cps) (simp_all add: utf8_code_point)

lemma surrogate_pair:
  assumes "is_high_surrogate u" "is_low_surrogate v"
  shows "scalar (0x10000 + (unat u - 0xD800) * 0x400 + (unat v - 0xDC00))"
    and "utf16_units (0x10000 + (unat u - 0xD800) * 0x400 + (unat v - 0xDC00)) = [u, v]"
proof -
  define h where "h = unat u - 0xD800"
  define l where "l = unat v - 0xDC00"
  have h: "h < 0x400" "0xD800 + h = unat u"
    using assms(1) unfolding h_def is_high_surrogate_def by linarith+
  have l: "l < 0x400" "0xDC00 + l = unat v"
    using assms(2) unfolding l_def is_low_surrogate_def by linarith+
  show "scalar (0x10000 + (unat u - 0xD800) * 0x400 + (unat v - 0xDC00))"
    unfolding h_def [symmetric] l_def [symmetric] scalar_def using h(1) l(1) by linarith
  have d: "(h * 0x400 + l) div 0x400 = h" and m: "(h * 0x400 + l) mod 0x400 = l"
    using l(1) by simp_all
  have "utf16_units (0x10000 + h * 0x400 + l) = [of_nat (0xD800 + h), of_nat (0xDC00 + l)]"
    unfolding utf16_units_def using d m by (simp add: add.assoc)
  then show "utf16_units (0x10000 + (unat u - 0xD800) * 0x400 + (unat v - 0xDC00)) = [u, v]"
    unfolding h_def [symmetric] l_def [symmetric] h(2) l(2) by simp
qed

lemma lone_scalar:
  assumes "\<not> is_high_surrogate u" "\<not> is_low_surrogate u"
  shows "scalar (lone_unit u)" and "utf16_units (lone_unit u) = [u]" and "lone_unit u = unat u"
proof -
  have lt: "unat u < 65536" by (rule unit_less)
  show eq: "lone_unit u = unat u" using assms by (simp add: lone_unit_def)
  show "scalar (lone_unit u)"
    unfolding eq scalar_def using assms lt
    by (auto simp: is_high_surrogate_def is_low_surrogate_def)
  show "utf16_units (lone_unit u) = [u]"
    unfolding eq utf16_units_def using lt by simp
qed

lemma well_formed_code_points:
  "well_formed s \<Longrightarrow> (\<forall>cp \<in> set (code_points s). scalar cp) \<and> concat (map utf16_units (code_points s)) = s"
proof (induction s rule: code_points.induct)
  case 1
  then show ?case by simp
next
  case (2 u)
  then show ?case by (simp add: lone_scalar(1,2))
next
  case (3 u v r)
  show ?case
  proof (cases "is_high_surrogate u")
    case True
    with "3.prems" have v: "is_low_surrogate v" and r: "well_formed r" by simp_all
    from "3.IH"(1) True v r show ?thesis by (simp add: surrogate_pair)
  next
    case False
    with "3.prems" have u: "\<not> is_low_surrogate u" and r: "well_formed (v # r)" by simp_all
    from "3.IH"(2) False u r show ?thesis by (simp add: lone_scalar(1,2))
  qed
qed

lemma utf8_roundtrip: "well_formed s \<Longrightarrow> Buffer_toString (Buffer_from s) = s"
  by (simp add: Buffer_toString_def Buffer_from_def utf8_code_points well_formed_code_points)

subsection \<open>Loading what was saved\<close>

lemma map_store_faithful:
  "fst (saveCredentials map_store acc c st) = Inr ()
   \<and> fst (loadCredentials map_store acc (snd (saveCredentials map_store acc c st))) = Inr c"
  by (simp add: map_store_def)


text \<open>
  C9, as the code has it. Let the backing store return from \<^verbatim>\<open>loadCredentials\<close> exactly
  what \<^verbatim>\<open>saveCredentials\<close> stored for the same account. Then for every non-empty
  \<^emph>\<open>well-formed\<close> string \<open>s\<close> (one without a lone surrogate) and every account,
  \<^verbatim>\<open>save\<close> stores the base64 text of the UTF-8 bytes of \<open>s\<close>, and \<^verbatim>\<open>load\<close> after it
  returns \<open>s\<close>.
\<close>

theorem load_after_save:
  assumes store: "\<And>acc c st. fst (saveCredentials m acc c st) = Inr ()
                    \<and> fst (loadCredentials m acc (snd (saveCredentials m acc c st))) = Inr c"
    and nonempty: "s \<noteq> []"
    and wf: "well_formed s"
  shows "fst (save m a (SecureString s) st) = Inr ()
       \<and> snd (save m a (SecureString s) st)
           = snd (saveCredentials m a (Buffer_toString_base64 (Buffer_from s)) st)
       \<and> fst (load m a (snd (save m a (SecureString s) st))) = Inr s"
proof -
  let ?enc = "Buffer_toString_base64 (Buffer_from s)"
  have sv: "save m a (SecureString s) st = saveCredentials m a ?enc st"
    using nonempty by (simp add: save_def)
  from store [of a ?enc st]
  have ok: "fst (saveCredentials m a ?enc st) = Inr ()"
    and ld: "fst (loadCredentials m a (snd (saveCredentials m a ?enc st))) = Inr ?enc"
    by simp_all
  have "Buffer_toString (Buffer_from_base64 ?enc) = s"
    by (simp add: base64_roundtrip utf8_roundtrip [OF wf])
  moreover obtain st' where "loadCredentials m a (snd (saveCredentials m a ?enc st)) = (Inr ?enc, st')"
    using ld by (cases "loadCredentials m a (snd (saveCredentials m a ?enc st))") simp
  ultimately have "fst (load m a (snd (saveCredentials m a ?enc st))) = Inr s"
    by (simp add: load_def)
  with ok show ?thesis by (simp add: sv)
qed


theorem load_after_save_witness:
  "fst (load map_store [0x61] (snd (save map_store [0x61] (SecureString [0x70, 0xE9, 0xD83D, 0xDE00]) Map.empty)))
     = Inr [0x70, 0xE9, 0xD83D, 0xDE00]"
proof -
  have wf: "well_formed [0x70, 0xE9, 0xD83D, 0xDE00]"
    by (simp add: is_high_surrogate_def is_low_surrogate_def)
  have ne: "[0x70, 0xE9, 0xD83D, 0xDE00] \<noteq> ([] :: js_string)" by simp
  show ?thesis
    by (rule conjunct2 [OF conjunct2
          [OF load_after_save [where m = map_store and a = "[0x61]" and st = Map.empty,
                OF map_store_faithful ne wf]]])
qed


text \<open>
  C9 as stated fails for a string that is not well-formed: the lone high surrogate U+D800
  is encoded as the bytes of U+FFFD (base64 \<^verbatim>\<open>77+9\<close>), so \<^verbatim>\<open>load\<close> returns the
  replacement character, not the string that was saved.
\<close>

theorem load_after_save_counterexample:
  "fst (load map_store [0x61] (snd (save map_store [0x61] (SecureString [0xD800]) Map.empty)))
     = Inr [0xFFFD]
   \<and> [0xFFFD] \<noteq> ([0xD800] :: js_string)"
  by (simp add: load_def save_def map_store_def Buffer_from_def Buffer_toString_base64_def
      Buffer_from_base64_def Buffer_toString_def utf8_bytes_def utf16_units_def lone_unit_def
      is_high_surrogate_def is_low_surrogate_def base64_char_def base64_padding_def unbase64_def
      List.map_filter_def Let_def)

section \<open>Properties of the command processor\<close>

subsection \<open>Unfolding and auxiliary facts\<close>

lemmas response_defs = new_CommandResponse_def succeeded_def failed_def setError_def setMessage_def
  setObj_def console_log_def console_error_def console_errorHeader_def endProgressBar_def
  bufferStdout_def bufferStderr_def read_only_def buildJsonResponse_def constructResponseObject_def
  error_msg_def

lemmas pipeline_defs = invoke_def validate_def prepare_def process_def attemptHandlerLoad_def
  handleHandlerError_def finishResponse_def validation_threw_def syntax_invalid_def
  preparation_threw_def invoke_handler_def chain_step_def step_response_def initial_chain_state_def
  settle_def definition_copy_def fullDefinition_copy_def property_def unexpectedCommandError_def

lemmas sample_defs = sample_env_def sample_definition_def sample_processor_def sample_args_def
  sample_params_def sample_step_def

lemmas precheck_defs = precheck_def toNotBeNullOrUndefined_def toBeOneOf_def toBeAnArray_def
  toNotBeEqual_def trim_def is_space_def

lemma finishResponse_returns:
  assumes "mResponseFormat r = ''default'' \<or> mResponseFormat r = ''json''"
  shows "finishResponse r tr =
           (Inr (buildJsonResponse r),
            if \<not> mSilent r \<and> mResponseFormat r = ''json'' then tr @ [WriteJson (buildJsonResponse r)] else tr)"
  using assms by (auto simp: finishResponse_def Let_def)

lemma precheck_format:
  assumes "precheck p params = Inr (prm, args)"
  shows "mResponseFormat (constructResponseObject prm) = ''default''
       \<or> mResponseFormat (constructResponseObject prm) = ''json''"
  using assms
  by (auto simp: precheck_def toNotBeNullOrUndefined_def toBeOneOf_def toBeAnArray_def
      toNotBeEqual_def Let_def constructResponseObject_def new_CommandResponse_def
      split: option.splits if_splits)

lemma precheck_positionals:
  assumes "precheck p params = Inr (prm, args)"
  shows "\<exists>ws. positionals args = Some ws"
  using assms
  by (auto simp: precheck_def toNotBeNullOrUndefined_def toBeOneOf_def toBeAnArray_def
      toNotBeEqual_def Let_def split: option.splits if_splits)

lemma validate_mode:
  assumes "validate env p args r0 = (res, r)"
  shows "mResponseFormat r = mResponseFormat r0" and "mSilent r = mSilent r0"
  using assms by (auto simp: validate_def read_only_def split: prod.splits)

lemma prepare_mode:
  assumes "prepare env p r0 args = (res, args', r)"
  shows "mResponseFormat r = mResponseFormat r0" and "mSilent r = mSilent r0"
  using assms by (auto simp: prepare_def read_only_def split: prod.splits option.splits)

lemma process_mode:
  assumes "process h hp r0 = (res, r)"
  shows "mResponseFormat r = mResponseFormat r0" and "mSilent r = mSilent r0"
  using assms by (auto simp: process_def read_only_def split: prod.splits)

lemma succeeded_mode [simp]:
  "mResponseFormat (succeeded r) = mResponseFormat r" "mSilent (succeeded r) = mSilent r"
  by (simp_all add: succeeded_def)


lemma processed_append [simp]: "processed (xs @ ys) = processed xs @ processed ys"
  by (induction xs rule: processed.induct) auto

lemma chain_loop_append:
  "chain_after env p prof args response chain i before st = Some st' \<Longrightarrow>
   chain_loop env p prof args response chain i (before @ rest) st
     = chain_loop env p prof args response chain (i + length before) rest st'"
  by (induction before arbitrary: i st) (auto split: step_result.splits)

lemma chain_step_Continue:
  assumes "chain_step env p prof args response chain i c st = Continue st'"
  shows "(\<exists>cr. chainedResponse st' = Some cr \<and> bufferedStdOut st' = mStdout cr
            \<and> bufferedStdErr st' = mStderr cr)
       \<and> processed (chain_trace st') = processed (chain_trace st) @ [ch_handler c]"
  using assms
  by (auto simp: chain_step_def attemptHandlerLoad_def Let_def buildJsonResponse_def
      split: sum.splits prod.splits option.splits)

lemma chain_after_buffers:
  "chain_after env p prof args response chain i before st = Some st' \<Longrightarrow>
   (case chainedResponse st of
      None \<Rightarrow> bufferedStdOut st = [] \<and> bufferedStdErr st = []
    | Some prev \<Rightarrow> bufferedStdOut st = mStdout prev \<and> bufferedStdErr st = mStderr prev) \<Longrightarrow>
   (case chainedResponse st' of
      None \<Rightarrow> before = [] \<and> bufferedStdOut st' = [] \<and> bufferedStdErr st' = []
    | Some prev \<Rightarrow> bufferedStdOut st' = mStdout prev \<and> bufferedStdErr st' = mStderr prev)"
proof (induction before arbitrary: i st)
  case Nil
  then show ?case by (auto split: option.splits)
next
  case (Cons c before)
  from Cons.prems(1) obtain st1 where
    s1: "chain_step env p prof args response chain i c st = Continue st1"
    and s2: "chain_after env p prof args response chain (Suc i) before st1 = Some st'"
    by (auto split: step_result.splits)
  from chain_step_Continue [OF s1] obtain cr where
    cr: "chainedResponse st1 = Some cr" "bufferedStdOut st1 = mStdout cr" "bufferedStdErr st1 = mStderr cr"
    by blast
  have "case chainedResponse st' of
      None \<Rightarrow> before = [] \<and> bufferedStdOut st' = [] \<and> bufferedStdErr st' = []
    | Some prev \<Rightarrow> bufferedStdOut st' = mStdout prev \<and> bufferedStdErr st' = mStderr prev"
    by (rule Cons.IH [OF s2]) (simp add: cr)
  moreover have "chainedResponse st' \<noteq> None"
    using s2 cr(1)
  proof (induction before arbitrary: i st1 cr)
    case Nil then show ?case by simp
  next
    case (Cons d before)
    from Cons.prems(1) obtain st2 where
      t1: "chain_step env p prof args response chain (Suc i) d st1 = Continue st2"
      and t2: "chain_after env p prof args response chain (Suc (Suc i)) before st2 = Some st'"
      by (auto split: step_result.splits)
    from chain_step_Continue [OF t1] obtain cr2 where "chainedResponse st2 = Some cr2" by blast
    from Cons.IH [OF t2 this] show ?case .
  qed
  ultimately show ?case by (auto split: option.splits)
qed

lemma chain_after_processed:
  "chain_after env p prof args response chain i before st = Some st' \<Longrightarrow>
   processed (chain_trace st') = processed (chain_trace st) @ map ch_handler before"
proof (induction before arbitrary: i st)
  case Nil
  then show ?case by simp
next
  case (Cons c before)
  from Cons.prems obtain st1 where
    s1: "chain_step env p prof args response chain i c st = Continue st1"
    and s2: "chain_after env p prof args response chain (Suc i) before st1 = Some st'"
    by (auto split: step_result.splits)
  from Cons.IH [OF s2] chain_step_Continue [OF s1] show ?case by simp
qed

lemma step_response_seed:
  "mStdout (step_response env args c st) = bufferedStdOut st"
  "mStderr (step_response env args c st) = bufferedStdErr st"
  "mResponseFormat (step_response env args c st) = ''default''
     \<or> mResponseFormat (step_response env args c st) = ''json''"
  by (simp_all add: step_response_def bufferStderr_def bufferStdout_def constructResponseObject_def
      new_CommandResponse_def)

lemma handleHandlerError_mode:
  "mResponseFormat (handleHandlerError e r path) = mResponseFormat r"
  "mSilent (handleHandlerError e r path) = mSilent r"
  by (auto simp: handleHandlerError_def Let_def setError_def console_error_def
      console_errorHeader_def setMessage_def failed_def endProgressBar_def setObj_def
      split: thrown.splits jsval.splits option.splits)

lemma processed_finishResponse:
  "processed (snd (finishResponse r tr)) = processed tr"
  by (simp add: finishResponse_def Let_def)

subsection \<open>The sample command line, evaluated\<close>

lemma sample_precheck_ok:
  "trim x \<noteq> [] \<Longrightarrow>
   precheck (sample_processor (Some x) None) (Some (sample_params ws opts))
     = Inr ((sample_params ws opts)\<lparr>responseFormat := Some ''default''\<rparr>, sample_args ws opts)"
  "precheck (sample_processor None (Some chain)) (Some (sample_params ws opts))
     = Inr ((sample_params ws opts)\<lparr>responseFormat := Some ''default''\<rparr>, sample_args ws opts)"
  by (simp_all add: precheck_def toNotBeNullOrUndefined_def toBeOneOf_def toBeAnArray_def
      toNotBeEqual_def sample_defs Let_def definition_copy_def)

lemma sample_response:
  "succeeded (constructResponseObject ((sample_params ws opts)\<lparr>responseFormat := Some ''default''\<rparr>))
     = new_CommandResponse False ''default''"
  by (simp add: sample_defs response_defs)

lemma sample_validate:
  "validate sample_env p (sample_args ws opts) r =
     (if map_of opts ''explode'' \<noteq> None then (Inl (Error ''validator crashed'' None), r)
      else if map_of opts ''name'' = None
      then (Inr \<lparr>valid = False\<rparr>, console_error (JStr ''Missing Required Option: name'') r)
      else (Inr \<lparr>valid = True\<rparr>, r))"
  by (simp add: validate_def sample_defs read_only_def console_error_def)

lemma sample_prepare:
  "prepare sample_env p r (sample_args ws opts) =
     (if map_of opts ''profile'' = Some (JStr ''unnamed'')
      then Inl (ImperativeError (error_msg []))
      else if map_of opts ''profile'' = Some (JStr ''absent'')
      then Inl (ImperativeError ((error_msg ''Profile not found'')\<lparr>additionalDetails := JStr ''type: main''\<rparr>))
      else Inr (), sample_args ws opts, r)"
  by (simp add: prepare_def sample_defs read_only_def)

subsection \<open>Errors thrown by a handler\<close>

text \<open>
  C1, as the code has it. Take a command with a single handler that has passed the
  checks, the validation and the preparation, and whose handler throws (or rejects with)
  the value \<open>v\<close>, leaving the response \<open>r''\<close>. Then \<^verbatim>\<open>invoke\<close> returns the failed
  snapshot (exit code 1) of that response after the error handling, and its error record
  is determined by the shape of \<open>v\<close>: the details of an ImperativeError; the message and
  the stack of any other Error; the string itself for a string; "Command Failed" for
  \<^verbatim>\<open>null\<close> and \<^verbatim>\<open>undefined\<close>. For any other value (a number, a boolean, an array, a
  plain object) no error record is set: the error field is as the handler left it, and
  the value becomes the data of the snapshot. The record has no field for a kind.
\<close>

theorem handler_error_mapping:
  assumes pre: "precheck p params = Inr (prm, args)"
    and val: "validate env p args (succeeded (constructResponseObject prm)) = (Inr vr, r)"
    and ok: "valid vr"
    and prep: "prepare env p r args = (Inr prof, args', r')"
    and hp: "def_handler (mDefinition p) = Some handlerPath"
    and req: "require env handlerPath = Inr h"
    and run: "process h \<lparr>profiles = prof, hp_arguments = args', definition_of = mDefinition p,
                fullDefinition_of = mFullDefinition p, isChained = False\<rparr> r' = (Some v, r'')"
  shows "\<exists>snap. fst (invoke env p params) = Resolved snap
     \<and> snap = buildJsonResponse (handleHandlerError v r'' handlerPath)
     \<and> success snap = False \<and> exitCode snap = 1
     \<and> error snap
         = (case v of
              ImperativeError d \<Rightarrow> Some d
            | Error m st \<Rightarrow> Some \<lparr>msg = m, additionalDetails = JUndefined, causeErrors = JUndefined, stack = st\<rparr>
            | Thrown (JStr s) \<Rightarrow> Some (error_msg s)
            | Thrown JUndefined \<Rightarrow> Some (error_msg ''Command Failed'')
            | Thrown JNull \<Rightarrow> Some (error_msg ''Command Failed'')
            | Thrown other \<Rightarrow> mError r'')
     \<and> data snap
         = (case v of
              Thrown (JBool b) \<Rightarrow> JBool b
            | Thrown (JNum n) \<Rightarrow> JNum n
            | Thrown (JArr xs) \<Rightarrow> JArr xs
            | Thrown (JObj kvs) \<Rightarrow> JObj kvs
            | _ \<Rightarrow> mData r'')"
proof -
  have fmt: "mResponseFormat r'' = ''default'' \<or> mResponseFormat r'' = ''json''"
    using process_mode(1) [OF run] prepare_mode(1) [OF prep] validate_mode(1) [OF val]
      precheck_format [OF pre] by simp
  have fmte: "mResponseFormat (handleHandlerError v r'' handlerPath) = ''default''
      \<or> mResponseFormat (handleHandlerError v r'' handlerPath) = ''json''"
    using fmt by (simp add: handleHandlerError_mode)
  have al: "attemptHandlerLoad env p r' handlerPath [Validate, Prepare]
      = (Inr (Some h, r'), [Validate, Prepare, Require handlerPath])"
    by (simp add: attemptHandlerLoad_def req)
  have "invoke env p params
      = settle (finishResponse (handleHandlerError v r'' handlerPath)
                  ([Validate, Prepare, Require handlerPath] @ [Process handlerPath]))"
    using pre val ok prep hp run
    by (simp add: invoke_def Let_def invoke_handler_def al definition_copy_def fullDefinition_copy_def)
  then have res: "fst (invoke env p params) = Resolved (buildJsonResponse (handleHandlerError v r'' handlerPath))"
    by (simp add: finishResponse_returns [OF fmte] settle_def)
  have "error (buildJsonResponse (handleHandlerError v r'' handlerPath))
         = (case v of
              ImperativeError d \<Rightarrow> Some d
            | Error m st \<Rightarrow> Some \<lparr>msg = m, additionalDetails = JUndefined, causeErrors = JUndefined, stack = st\<rparr>
            | Thrown (JStr s) \<Rightarrow> Some (error_msg s)
            | Thrown JUndefined \<Rightarrow> Some (error_msg ''Command Failed'')
            | Thrown JNull \<Rightarrow> Some (error_msg ''Command Failed'')
            | Thrown other \<Rightarrow> mError r'')
     \<and> data (buildJsonResponse (handleHandlerError v r'' handlerPath))
         = (case v of
              Thrown (JBool b) \<Rightarrow> JBool b
            | Thrown (JNum n) \<Rightarrow> JNum n
            | Thrown (JArr xs) \<Rightarrow> JArr xs
            | Thrown (JObj kvs) \<Rightarrow> JObj kvs
            | _ \<Rightarrow> mData r'')
     \<and> success (buildJsonResponse (handleHandlerError v r'' handlerPath)) = False
     \<and> exitCode (buildJsonResponse (handleHandlerError v r'' handlerPath)) = 1"
    by (auto simp: handleHandlerError_def buildJsonResponse_def Let_def setError_def console_error_def
        console_errorHeader_def setMessage_def failed_def endProgressBar_def setObj_def error_msg_def
        split: thrown.splits jsval.splits option.splits)
  with res show ?thesis by simp
qed

theorem handler_error_mapping_witness:
  "\<exists>snap. fst (invoke sample_env (sample_processor (Some ''throw42'') None)
                  (Some (sample_params [''greet''] [(''name'', JStr ''Ada'')]))) = Resolved snap
     \<and> success snap = False \<and> exitCode snap = 1 \<and> error snap = None \<and> data snap = JNum 42"
proof -
  let ?ws = "[''greet'']" and ?opts = "[(''name'', JStr ''Ada'')]"
  let ?p = "sample_processor (Some ''throw42'') None"
  let ?r = "new_CommandResponse False ''default''"
  have pre: "precheck ?p (Some (sample_params ?ws ?opts))
     = Inr ((sample_params ?ws ?opts)\<lparr>responseFormat := Some ''default''\<rparr>, sample_args ?ws ?opts)"
    by (rule sample_precheck_ok) (simp add: trim_def is_space_def)
  have val: "validate sample_env ?p (sample_args ?ws ?opts)
        (succeeded (constructResponseObject ((sample_params ?ws ?opts)\<lparr>responseFormat := Some ''default''\<rparr>)))
     = (Inr \<lparr>valid = True\<rparr>, ?r)"
    by (simp add: sample_validate sample_response)
  have ok: "valid \<lparr>valid = True\<rparr>" by simp
  have prep: "prepare sample_env ?p ?r (sample_args ?ws ?opts) = (Inr (), sample_args ?ws ?opts, ?r)"
    by (simp add: sample_prepare)
  have hp: "def_handler (mDefinition ?p) = Some ''throw42''"
    by (simp add: sample_defs)
  have req: "require sample_env ''throw42''
      = Inr (\<lambda>hp r. (Some (Thrown (JNum 42)), console_log (JStr ''bye'') r))"
    by (simp add: sample_defs)
  have run: "process (\<lambda>hp r. (Some (Thrown (JNum 42)), console_log (JStr ''bye'') r)) hp ?r
      = (Some (Thrown (JNum 42)), said [Text (JStr ''bye'')])" for hp :: "unit IHandlerParameters"
    by (simp add: process_def said_def response_defs)
  from handler_error_mapping [OF pre val ok prep hp req run]
  show ?thesis by (auto simp: said_def new_CommandResponse_def)
qed

text \<open>
  C1 as stated fails: when the handler \<^verbatim>\<open>throw42\<close> throws the number 42, the returned
  snapshot has no error record at all (so no additional details "42"); the number is the
  data of the snapshot.
\<close>

theorem handler_throws_number_counterexample:
  "fst (invoke sample_env (sample_processor (Some ''throw42'') None)
          (Some (sample_params [''greet''] [(''name'', JStr ''Ada'')])))
   = Resolved \<lparr>success = False, exitCode = 1, message = [], data = JNum 42,
       stdout = [Text (JStr ''bye'')],
       stderr = [ErrorHeader ''Unexpected Command Error'',
                 Text (JStr ''The command indicated failure through an unexpected means.''),
                 Text (JStr ''Contact the creator of handler:''),
                 Text (JStr (quoted ''throw42''))],
       error = None\<rparr>"
  by (simp add: pipeline_defs precheck_defs sample_defs response_defs Let_def)

subsection \<open>The checks at the head of invoke\<close>




subsection \<open>Chained handlers\<close>

text \<open>
  C3. Take a command with chained handlers \<open>before @ step # rest\<close> that has passed the
  checks, the validation and the preparation, and whose steps \<open>before\<close> have all
  completed. The response handed to the handler of \<open>step\<close> holds the stdout and stderr
  that the loop carries, which are those of the response of the step before (and empty
  when there is none). If the handler throws \<open>e\<close>, \<^verbatim>\<open>invoke\<close> returns the snapshot of
  that step's response after the error handling, and the handlers called are exactly
  those of \<open>before\<close> and of \<open>step\<close>, none of \<open>rest\<close>. If the handler returns and
  \<open>step\<close> is the last one, \<^verbatim>\<open>invoke\<close> returns the snapshot of that last step's
  response.
\<close>

theorem invoke_chain_stops_at_failure:
  assumes pre: "precheck p params = Inr (prm, args)"
    and val: "validate env p args (succeeded (constructResponseObject prm)) = (Inr vr, r)"
    and ok: "valid vr"
    and prep: "prepare env p r args = (Inr prof, args', r')"
    and hp: "def_handler (mDefinition p) = None"
    and ch: "def_chainedHandlers (mDefinition p) = Some (before @ step # rest)"
    and before: "chain_after env p prof args' r' (before @ step # rest) 0 before
                   (initial_chain_state [Validate, Prepare]) = Some st"
    and req: "require env (ch_handler step) = Inr h"
    and ga: "getArguments env (mCommandRootName p) (before @ step # rest) (length before)
               (chainedResponses st) args' = Inr stepArgs"
    and run: "process h \<lparr>profiles = prof, hp_arguments = stepArgs, definition_of = mDefinition p,
                fullDefinition_of = mFullDefinition p, isChained = True\<rparr>
                (step_response env args' step st) = (res, cr')"
  shows "mStdout (step_response env args' step st) = bufferedStdOut st
     \<and> mStderr (step_response env args' step st) = bufferedStdErr st
     \<and> (case chainedResponse st of
          None \<Rightarrow> before = [] \<and> bufferedStdOut st = [] \<and> bufferedStdErr st = []
        | Some prev \<Rightarrow> bufferedStdOut st = mStdout prev \<and> bufferedStdErr st = mStderr prev)
     \<and> (\<forall>e. res = Some e \<longrightarrow>
          fst (invoke env p params) = Resolved (buildJsonResponse (handleHandlerError e cr' (ch_handler step)))
          \<and> processed (snd (invoke env p params)) = map ch_handler before @ [ch_handler step])
     \<and> (res = None \<and> rest = [] \<longrightarrow>
          fst (invoke env p params) = Resolved (buildJsonResponse cr')
          \<and> processed (snd (invoke env p params)) = map ch_handler before @ [ch_handler step])"
proof -
  let ?chain = "before @ step # rest"
  let ?loop = "chain_loop env p prof args' r' ?chain"
  have inv_eq: "invoke env p params = settle (?loop 0 ?chain (initial_chain_state [Validate, Prepare]))"
    using pre val ok prep hp ch by (simp add: invoke_def Let_def definition_copy_def)
  have skip: "?loop 0 ?chain (initial_chain_state [Validate, Prepare]) = ?loop (length before) (step # rest) st"
    using chain_loop_append [OF before, of "step # rest"] by simp
  have bufs: "case chainedResponse st of
          None \<Rightarrow> before = [] \<and> bufferedStdOut st = [] \<and> bufferedStdErr st = []
        | Some prev \<Rightarrow> bufferedStdOut st = mStdout prev \<and> bufferedStdErr st = mStderr prev"
    by (rule chain_after_buffers [OF before]) (simp add: initial_chain_state_def)
  have tr: "processed (chain_trace st) = map ch_handler before"
    using chain_after_processed [OF before] by (simp add: initial_chain_state_def)
  have fmt: "mResponseFormat cr' = ''default'' \<or> mResponseFormat cr' = ''json''"
    using process_mode(1) [OF run] step_response_seed(3) [of env args' step st] by simp
  have al: "attemptHandlerLoad env p r' (ch_handler step) (chain_trace st)
      = (Inr (Some h, r'), chain_trace st @ [Require (ch_handler step)])"
    by (simp add: attemptHandlerLoad_def req)
  have failure: "fst (invoke env p params) = Resolved (buildJsonResponse (handleHandlerError e cr' (ch_handler step)))
          \<and> processed (snd (invoke env p params)) = map ch_handler before @ [ch_handler step]"
    if "res = Some e" for e
  proof -
    have fmte: "mResponseFormat (handleHandlerError e cr' (ch_handler step)) = ''default''
        \<or> mResponseFormat (handleHandlerError e cr' (ch_handler step)) = ''json''"
      using fmt by (simp add: handleHandlerError_mode)
    have "?loop (length before) (step # rest) st
        = finishResponse (handleHandlerError e cr' (ch_handler step))
            (chain_trace st @ [Require (ch_handler step)] @ [Process (ch_handler step)])"
      using run that by (simp add: chain_step_def al ga Let_def definition_copy_def fullDefinition_copy_def)
    then show ?thesis
      unfolding inv_eq skip using tr
      by (simp add: finishResponse_returns [OF fmte] settle_def)
  qed
  have success: "fst (invoke env p params) = Resolved (buildJsonResponse cr')
          \<and> processed (snd (invoke env p params)) = map ch_handler before @ [ch_handler step]"
    if "res = None" "rest = []"
  proof -
    have "?loop (length before) (step # rest) st
        = finishResponse cr' (chain_trace st @ [Require (ch_handler step)] @ [Process (ch_handler step)])"
      using run that ga by (simp add: chain_step_def al Let_def definition_copy_def fullDefinition_copy_def)
    then show ?thesis
      unfolding inv_eq skip using tr
      by (simp add: finishResponse_returns [OF fmt] settle_def)
  qed
  show ?thesis
    using bufs failure success by (simp add: step_response_seed)
qed

theorem invoke_chain_stops_at_failure_witness:
  "fst (invoke sample_env (sample_processor None (Some [''say'', ''throw42'', ''say'']))
          (Some (sample_params [''greet''] [(''name'', JStr ''Ada'')])))
     = Resolved (buildJsonResponse (handleHandlerError (Thrown (JNum 42))
          (said [Text (JStr ''hello''), Text (JStr ''bye'')]) ''throw42''))
   \<and> processed (snd (invoke sample_env (sample_processor None (Some [''say'', ''throw42'', ''say'']))
          (Some (sample_params [''greet''] [(''name'', JStr ''Ada'')])))) = [''say'', ''throw42'']
   \<and> fst (invoke sample_env (sample_processor None (Some [''say'', ''say'']))
          (Some (sample_params [''greet''] [(''name'', JStr ''Ada'')])))
     = Resolved (buildJsonResponse (said [Text (JStr ''hello''), Text (JStr ''hello'')]))"
proof -
  let ?ws = "[''greet'']" and ?opts = "[(''name'', JStr ''Ada'')]"
  let ?r = "new_CommandResponse False ''default''"
  let ?st = "\<lparr>chainedResponses = [JUndefined], chainedResponse = Some (said [Text (JStr ''hello'')]),
              bufferedStdOut = [Text (JStr ''hello'')], bufferedStdErr = [],
              chain_trace = [Validate, Prepare, Require ''say'', Process ''say'']\<rparr>"
  have ok: "valid \<lparr>valid = True\<rparr>" by simp
  have after: "chain_after sample_env p () (sample_args ?ws ?opts) ?r chain 0 [sample_step ''say'']
        (initial_chain_state [Validate, Prepare]) = Some ?st" for p chain
    by (simp add: chain_step_def attemptHandlerLoad_def step_response_def initial_chain_state_def
        process_def sample_defs sample_step_def said_def response_defs property_def Let_def)
  have seed: "step_response sample_env (sample_args ?ws ?opts) (sample_step path) ?st
      = said [Text (JStr ''hello'')]" for path
    by (simp add: step_response_def sample_defs sample_step_def said_def response_defs property_def)
  have ga: "getArguments sample_env root chain i prior (sample_args ?ws ?opts)
      = Inr (sample_args ?ws ?opts)" for root chain i prior
    by (simp add: sample_defs)
  have hp: "def_handler (mDefinition (sample_processor None c)) = None" for c
    by (simp add: sample_defs)
  have pre: "precheck (sample_processor None (Some c)) (Some (sample_params ?ws ?opts))
     = Inr ((sample_params ?ws ?opts)\<lparr>responseFormat := Some ''default''\<rparr>, sample_args ?ws ?opts)" for c
    by (rule sample_precheck_ok)
  have val: "validate sample_env p (sample_args ?ws ?opts)
        (succeeded (constructResponseObject ((sample_params ?ws ?opts)\<lparr>responseFormat := Some ''default''\<rparr>)))
     = (Inr \<lparr>valid = True\<rparr>, ?r)" for p
    by (simp add: sample_validate sample_response)
  have prep: "prepare sample_env p ?r (sample_args ?ws ?opts) = (Inr (), sample_args ?ws ?opts, ?r)" for p
    by (simp add: sample_prepare)
  have ch3: "def_chainedHandlers (mDefinition (sample_processor None (Some [''say'', ''throw42'', ''say''])))
      = Some ([sample_step ''say''] @ sample_step ''throw42'' # [sample_step ''say''])"
    by (simp add: sample_defs sample_step_def)
  have ch2: "def_chainedHandlers (mDefinition (sample_processor None (Some [''say'', ''say''])))
      = Some ([sample_step ''say''] @ sample_step ''say'' # [])"
    by (simp add: sample_defs sample_step_def)
  have req42: "require sample_env (ch_handler (sample_step ''throw42''))
      = Inr (\<lambda>hp r. (Some (Thrown (JNum 42)), console_log (JStr ''bye'') r))"
    by (simp add: sample_defs sample_step_def)
  have reqsay: "require sample_env (ch_handler (sample_step ''say''))
      = Inr (\<lambda>hp r. (None, console_log (JStr ''hello'') r))"
    by (simp add: sample_defs sample_step_def)
  have run42: "process (\<lambda>hp r. (Some (Thrown (JNum 42)), console_log (JStr ''bye'') r)) hp
        (step_response sample_env (sample_args ?ws ?opts) (sample_step ''throw42'') ?st)
      = (Some (Thrown (JNum 42)), said [Text (JStr ''hello''), Text (JStr ''bye'')])" for hp :: "unit IHandlerParameters"
    unfolding process_def seed by (simp add: said_def response_defs)
  have runsay: "process (\<lambda>hp r. (None, console_log (JStr ''hello'') r)) hp
        (step_response sample_env (sample_args ?ws ?opts) (sample_step ''say'') ?st)
      = (None, said [Text (JStr ''hello''), Text (JStr ''hello'')])" for hp :: "unit IHandlerParameters"
    unfolding process_def seed by (simp add: said_def response_defs)
  from invoke_chain_stops_at_failure [OF pre val ok prep hp ch3 after req42 ga run42]
    invoke_chain_stops_at_failure [OF pre val ok prep hp ch2 after reqsay ga runsay]
  show ?thesis by (simp add: sample_step_def)
qed

subsection \<open>Preparation\<close>




text \<open>
  An \<^verbatim>\<open>Error\<close> that is not an ImperativeError has no \<^verbatim>\<open>details\<close>: reading
  \<^verbatim>\<open>details.additionalDetails\<close> in the \<^verbatim>\<open>catch\<close> block throws, and \<^verbatim>\<open>invoke\<close>
  rejects.
\<close>

lemma invoke_preparation_generic_error:
  assumes pre: "precheck p params = Inr (prm, args)"
    and val: "validate env p args (succeeded (constructResponseObject prm)) = (Inr vr, r)"
    and ok: "valid vr"
    and prep: "prepare env p r args = (Inl (Error m st), args', r')"
  shows "invoke env p params = (Rejected (TypeError ''additionalDetails''), [Validate, Prepare])"
  using pre val ok prep
  by (simp add: invoke_def Let_def preparation_threw_def settle_def)

subsection \<open>Invalid syntax\<close>

text \<open>
  C5, as the code has it. When the validator answers \<open>valid = False\<close>, \<^verbatim>\<open>invoke\<close>
  returns a failed snapshot with the message "Command syntax invalid"; after what the
  validator wrote, stderr holds the hint \<^verbatim>\<open>Use "<root> <words> --help" ...\<close> built from
  the root command name and the positional words when there are any, and
  \<^verbatim>\<open>Use "<name> --help" ...\<close> with the name of the command definition when there are
  none. Neither the preparation nor a handler has run.
\<close>

theorem invoke_syntax_invalid:
  assumes pre: "precheck p params = Inr (prm, args)"
    and val: "validate env p args (succeeded (constructResponseObject prm)) = (Inr vr, r)"
    and inv: "\<not> valid vr"
  shows "\<exists>snap ws. positionals args = Some ws
     \<and> fst (invoke env p params) = Resolved snap
     \<and> success snap = False \<and> exitCode snap = 1 \<and> message snap = ''Command syntax invalid''
     \<and> stderr snap = mStderr r @ [Text (JStr ([CHR 0x0A] @ ''Use ''
           @ quoted ((if ws \<noteq> [] then mCommandRootName p @ '' '' @ join '' '' ws
                      else def_name (mDefinition p)) @ '' --help'')
           @ '' to view command description, usage, and options.''))]
     \<and> (snd (invoke env p params) = [Validate] \<or> snd (invoke env p params) = [Validate, WriteJson snap])"
proof -
  from precheck_positionals [OF pre] obtain ws where ws: "positionals args = Some ws" by blast
  have fmt: "mResponseFormat r = ''default'' \<or> mResponseFormat r = ''json''"
    using validate_mode(1) [OF val] precheck_format [OF pre] by simp
  define hint where "hint = [CHR 0x0A] @ ''Use ''
           @ quoted ((if ws \<noteq> [] then mCommandRootName p @ '' '' @ join '' '' ws
                      else def_name (mDefinition p)) @ '' --help'')
           @ '' to view command description, usage, and options.''"
  define r3 where "r3 = console_error (JStr hint) (failed (setMessage ''Command syntax invalid'' r))"
  have fmt3: "mResponseFormat r3 = ''default'' \<or> mResponseFormat r3 = ''json''"
    using fmt by (simp add: r3_def console_error_def failed_def setMessage_def)
  have si: "syntax_invalid p args r [Validate] = finishResponse r3 [Validate]"
    by (simp add: syntax_invalid_def ws r3_def hint_def Let_def definition_copy_def)
  have inv_eq: "invoke env p params = settle (finishResponse r3 [Validate])"
    using pre val inv by (simp add: invoke_def Let_def si)
  show ?thesis
    unfolding inv_eq finishResponse_returns [OF fmt3]
    by (auto simp: settle_def ws buildJsonResponse_def r3_def hint_def console_error_def failed_def
        setMessage_def)
qed

theorem invoke_syntax_invalid_witness:
  "\<exists>snap. fst (invoke sample_env (sample_processor (Some ''say'') None) (Some (sample_params [''greet''] [])))
             = Resolved snap
     \<and> success snap = False \<and> message snap = ''Command syntax invalid''
     \<and> stderr snap = [Text (JStr ''Missing Required Option: name''),
                       Text (JStr (CHR 0x0A # ''Use '' @ quoted ''zowe greet --help''
                                     @ '' to view command description, usage, and options.''))]"
proof -
  have pre: "precheck (sample_processor (Some ''say'') None) (Some (sample_params [''greet''] []))
     = Inr ((sample_params [''greet''] [])\<lparr>responseFormat := Some ''default''\<rparr>, sample_args [''greet''] [])"
    by (rule sample_precheck_ok) (simp add: trim_def is_space_def)
  have val: "validate sample_env (sample_processor (Some ''say'') None) (sample_args [''greet''] [])
        (succeeded (constructResponseObject ((sample_params [''greet''] [])\<lparr>responseFormat := Some ''default''\<rparr>)))
     = (Inr \<lparr>valid = False\<rparr>,
        console_error (JStr ''Missing Required Option: name'') (new_CommandResponse False ''default''))"
    by (simp add: sample_validate sample_response)
  from invoke_syntax_invalid [OF pre val]
  show ?thesis
    by (auto simp: sample_args_def sample_processor_def console_error_def new_CommandResponse_def quoted_def)
qed

text \<open>
  C5 as stated fails: without positional words the hint names the command definition
  \<^verbatim>\<open>greet\<close>; the root command \<^verbatim>\<open>zowe\<close> does not occur in it.
\<close>

theorem invoke_syntax_invalid_counterexample:
  "fst (invoke sample_env (sample_processor (Some ''say'') None) (Some (sample_params [] [])))
   = Resolved \<lparr>success = False, exitCode = 1, message = ''Command syntax invalid'', data = JUndefined,
       stdout = [],
       stderr = [Text (JStr ''Missing Required Option: name''),
                 Text (JStr (CHR 0x0A # ''Use '' @ quoted ''greet --help''
                               @ '' to view command description, usage, and options.''))],
       error = None\<rparr>"
  by (simp add: pipeline_defs precheck_defs sample_defs response_defs Let_def)

subsection \<open>Handler instantiation\<close>




subsection \<open>A validator that throws\<close>




subsection \<open>An empty list of chained handlers\<close>

text \<open>
  C10. For a command without a single handler whose list of chained handlers is empty,
  an invocation that passes the checks, the validation and the preparation does not
  return a snapshot: after the loop, \<^verbatim>\<open>finishResponse\<close> reads \<^verbatim>\<open>buildJsonResponse\<close>
  of the per-step response, which is \<^verbatim>\<open>undefined\<close>, and the promise is rejected with
  that TypeError.
\<close>

theorem invoke_empty_chain_rejects:
  assumes pre: "precheck p params = Inr (prm, args)"
    and val: "validate env p args (succeeded (constructResponseObject prm)) = (Inr vr, r)"
    and ok: "valid vr"
    and prep: "prepare env p r args = (Inr prof, args', r')"
    and hp: "def_handler (mDefinition p) = None"
    and ch: "def_chainedHandlers (mDefinition p) = Some []"
  shows "invoke env p params = (Rejected (TypeError ''buildJsonResponse''), [Validate, Prepare])"
  using pre val ok prep hp ch
  by (simp add: invoke_def Let_def definition_copy_def initial_chain_state_def settle_def)

theorem invoke_empty_chain_rejects_witness:
  "invoke sample_env (sample_processor None (Some []))
      (Some (sample_params [''greet''] [(''name'', JStr ''Ada'')]))
   = (Rejected (TypeError ''buildJsonResponse''), [Validate, Prepare])"
proof -
  let ?ws = "[''greet'']" and ?opts = "[(''name'', JStr ''Ada'')]"
  have pre: "precheck (sample_processor None (Some [])) (Some (sample_params ?ws ?opts))
     = Inr ((sample_params ?ws ?opts)\<lparr>responseFormat := Some ''default''\<rparr>, sample_args ?ws ?opts)"
    by (rule sample_precheck_ok)
  have val: "validate sample_env (sample_processor None (Some [])) (sample_args ?ws ?opts)
        (succeeded (constructResponseObject ((sample_params ?ws ?opts)\<lparr>responseFormat := Some ''default''\<rparr>)))
     = (Inr \<lparr>valid = True\<rparr>, new_CommandResponse False ''default'')"
    by (simp add: sample_validate sample_response)
  have ok: "valid \<lparr>valid = True\<rparr>" by simp
  have prep: "prepare sample_env (sample_processor None (Some [])) (new_CommandResponse False ''default'')
        (sample_args ?ws ?opts)
     = (Inr (), sample_args ?ws ?opts, new_CommandResponse False ''default'')"
    by (simp add: sample_prepare)
  have hp: "def_handler (mDefinition (sample_processor None (Some []))) = None"
    by (simp add: sample_defs)
  have ch: "def_chainedHandlers (mDefinition (sample_processor None (Some []))) = Some []"
    by (simp add: sample_defs)
  from invoke_empty_chain_rejects [OF pre val ok prep hp ch]
  show ?thesis .
qed

end
